theory Spec2Isabelle
  imports Complex_Main "HOL-Library.Sublist"
begin

text \<open>
  A model of the gateway manager (\<^verbatim>\<open>sdk-deploy/gateway_manager.py\<close>) and of the cleanup
  sweep (\<^verbatim>\<open>sdk-deploy/cleanup.py\<close>). Every function takes the world (the clock and the log of
  the calls made so far) and returns its result, or the exception it raises, with the world
  it leaves. The services, the prompt and the passing of time are a parameter, the
  \<open>control_plane\<close>: what each call answers and how long it takes may depend on the whole
  world, and no two calls see the same world, so every sequence of answers is covered.
  Logging has no effect on results and is left out, as is the construction of the clients.
  A method \<^verbatim>\<open>_name\<close> of the source is \<open>name\<close> here.
\<close>

section \<open>Strings and exceptions\<close>

text \<open>
  Python's \<^verbatim>\<open>needle in hay\<close> on strings: \<open>needle\<close> occurs in \<open>hay\<close> as a
  contiguous run of characters.
\<close>

fun str_in :: "string \<Rightarrow> string \<Rightarrow> bool" where
  "str_in needle [] = (needle = [])"
| "str_in needle (c # cs) = (prefix needle (c # cs) \<or> str_in needle cs)"

text \<open>Decimal rendering of an integer inside an f-string.\<close>

fun str_nat :: "nat \<Rightarrow> string" where
  "str_nat n =
     (if n < 10 then [''0123456789'' ! n]
      else str_nat (n div 10) @ [''0123456789'' ! (n mod 10)])"

definition str_int :: "int \<Rightarrow> string" where
  "str_int i = (if i < 0 then CHR ''-'' # str_nat (nat (- i)) else str_nat (nat i))"

text \<open>
  \<^verbatim>\<open>str.lower()\<close> and \<^verbatim>\<open>str.strip()\<close>. A \<open>char\<close> stands for the code point of
  its number, so a \<open>string\<close> is a Python string of code points below 256. Of these,
  \<^verbatim>\<open>lower\<close> moves \<open>A\<close> to \<open>Z\<close> and the capital letters \<open>0xC0\<close> to \<open>0xDE\<close>
  (without the sign \<open>0xD7\<close>) up by 32, and \<^verbatim>\<open>strip\<close> removes the characters for
  which \<^verbatim>\<open>str.isspace\<close> holds: \<open>0x09\<close> to \<open>0x0D\<close>, \<open>0x1C\<close> to \<open>0x1F\<close>, the
  blank, \<open>0x85\<close> and \<open>0xA0\<close>.
\<close>

definition lower_char :: "char \<Rightarrow> char" where
  "lower_char c =
     (if (65 \<le> (of_char c :: nat) \<and> (of_char c :: nat) \<le> 90)
         \<or> (192 \<le> (of_char c :: nat) \<and> (of_char c :: nat) \<le> 222 \<and> (of_char c :: nat) \<noteq> 215)
      then char_of ((of_char c :: nat) + 32)
      else c)"

definition lower :: "string \<Rightarrow> string" where
  "lower s = map lower_char s"

definition is_space :: "char \<Rightarrow> bool" where
  "is_space c =
     (c \<in> set [CHR '' '', CHR 0x09, CHR 0x0A, CHR 0x0B, CHR 0x0C, CHR 0x0D,
                CHR 0x1C, CHR 0x1D, CHR 0x1E, CHR 0x1F, CHR 0x85, CHR 0xA0])"

definition strip :: "string \<Rightarrow> string" where
  "strip s = rev (dropWhile is_space (rev (dropWhile is_space s)))"

text \<open>
  The exceptions the code raises itself (\<open>Exception\<close>, \<open>TimeoutError\<close>, the
  \<open>KeyError\<close> of a subscript on a missing key) and the ones its collaborators raise
  (\<open>ClientError\<close> for the service clients, \<open>EOFError\<close> for the prompt). All of them
  are subclasses of Python's \<open>Exception\<close>, so every \<^verbatim>\<open>except Exception\<close> of the
  source catches them. \<open>str\<close> is \<^verbatim>\<open>str(e)\<close>.
\<close>

datatype exn =
    Exception string
  | TimeoutError string
  | KeyError string
  | ClientError string
  | EOFError string

fun str :: "exn \<Rightarrow> string" where
  "str (Exception m) = m"
| "str (TimeoutError m) = m"
| "str (KeyError k) = [CHR 0x27] @ k @ [CHR 0x27]"
| "str (ClientError m) = m"
| "str (EOFError m) = m"

section \<open>The remote control plane, the clock and the call log\<close>

text \<open>
  The dictionaries the control plane answers with, restricted to the keys the code reads.
  A key that is absent is \<open>None\<close>: \<^verbatim>\<open>d.get(k)\<close> reads the option, \<^verbatim>\<open>d[k]\<close>
  raises \<open>KeyError\<close> on \<open>None\<close>. The keyword arguments of the create call are
  \<open>create_gateway_request\<close>; its \<open>authorizerConfiguration\<close> is the dictionary under
  the one key \<open>customJwt\<close>, and \<open>req_description\<close> is the keyword \<open>description\<close>
  (the configuration has a field of that name too).
\<close>

record gateway =
  gatewayId :: "string option"
  gatewayArn :: "string option"
  gatewayUrl :: "string option"
  gatewayName :: "string option"
  gatewayStatus :: "string option"

record target =
  targetId :: "string option"
  targetStatus :: "string option"

record customJwt =
  authorizerName :: string
  tokenSource :: string
  issuer :: string
  audience :: "string list"

record create_gateway_request =
  name :: string
  req_description :: string
  protocolType :: string
  authorizerType :: string
  authorizerConfiguration :: customJwt
  roleArn :: string

record s3_bucket =
  Name :: "string option"

record s3_object =
  Key :: "string option"

record s3_listing =
  Contents :: "s3_object list option"
  KeyCount :: "int option"

text \<open>
  Every call that leaves the process, with its arguments, and how it ended. The log of
  these is what a test double records.
\<close>

datatype call =
    GetCallerIdentity
  | CreateGateway create_gateway_request
  | GetGateway string
  | ListGateways
  | DeleteGateway string
  | ListGatewayTargets string
  | GetGatewayTarget string string
  | DeleteGatewayTarget string string
  | ListBuckets
  | ListObjectsV2 string string "nat option"
  | DeleteObjects string "string list"
  | Input string

datatype outcome = Returned | Raised exn

text \<open>
  \<open>clock\<close> is the time in seconds, a real number; \<open>trace\<close> is the log of calls, oldest
  first.
\<close>

record world =
  clock :: real
  trace :: "(call \<times> outcome) list"

text \<open>
  The environment: for each operation, what it answers (a value or a raised exception)
  and how many seconds the call takes, both as functions of the world at the time of the
  call, so that an answer may depend on the time and on everything called before.
  \<open>sleep_extra\<close> is by how much a \<^verbatim>\<open>time.sleep\<close> overruns, and \<open>clock_error\<close> by
  what the floating-point number that \<^verbatim>\<open>time.time()\<close> returns is off the time (by
  rounding, by a clock that runs fast or slow, by a clock that is set while the program
  runs). A duration below zero counts as zero, and an error larger than
  \<open>clock_tolerance\<close> either way counts as \<open>clock_tolerance\<close>: the readings of the clock
  stay that close to the time.
\<close>

record control_plane =
  sts_get_caller_identity :: "world \<Rightarrow> (exn + string option) \<times> real"
  agentcore_create_gateway :: "world \<Rightarrow> create_gateway_request \<Rightarrow> (exn + gateway) \<times> real"
  agentcore_get_gateway :: "world \<Rightarrow> string \<Rightarrow> (exn + gateway) \<times> real"
  agentcore_list_gateways :: "world \<Rightarrow> (exn + gateway list option) \<times> real"
  agentcore_delete_gateway :: "world \<Rightarrow> string \<Rightarrow> (exn + unit) \<times> real"
  agentcore_list_gateway_targets :: "world \<Rightarrow> string \<Rightarrow> (exn + target list option) \<times> real"
  agentcore_get_gateway_target :: "world \<Rightarrow> string \<Rightarrow> string \<Rightarrow> (exn + target) \<times> real"
  agentcore_delete_gateway_target :: "world \<Rightarrow> string \<Rightarrow> string \<Rightarrow> (exn + unit) \<times> real"
  s3_list_buckets :: "world \<Rightarrow> (exn + s3_bucket list option) \<times> real"
  s3_list_objects_v2 :: "world \<Rightarrow> string \<Rightarrow> string \<Rightarrow> nat option \<Rightarrow> (exn + s3_listing) \<times> real"
  s3_delete_objects :: "world \<Rightarrow> string \<Rightarrow> string list \<Rightarrow> (exn + unit) \<times> real"
  stdin_input :: "world \<Rightarrow> string \<Rightarrow> (exn + string) \<times> real"
  sleep_extra :: "world \<Rightarrow> real \<Rightarrow> real"
  clock_error :: "world \<Rightarrow> real"
  clock_tolerance :: real

text \<open>One call: the answer, the clock advanced by the call's duration, the call logged.\<close>

definition invoke :: "call \<Rightarrow> (exn + 'a) \<times> real \<Rightarrow> world \<Rightarrow> (exn + 'a) \<times> world" where
  "invoke c answer w =
     (fst answer,
      w\<lparr>clock := clock w + max 0 (snd answer),
        trace := trace w @ [(c, case fst answer of Inl e \<Rightarrow> Raised e | Inr _ \<Rightarrow> Returned)]\<rparr>)"

text \<open>\<^verbatim>\<open>time.sleep(d)\<close>: at least \<open>d\<close> seconds pass.\<close>

definition sleep :: "control_plane \<Rightarrow> real \<Rightarrow> world \<Rightarrow> world" where
  "sleep cp d w = w\<lparr>clock := clock w + d + max 0 (sleep_extra cp w d)\<rparr>"

text \<open>
  \<^verbatim>\<open>time.time()\<close>: the time as the program reads it. The rounding of a difference of
  two readings is part of the error of the later one. Time passes in calls and sleeps only,
  so the reading a wait takes on entry and the reading of its first test are one reading.
\<close>

definition time_time :: "control_plane \<Rightarrow> world \<Rightarrow> real" where
  "time_time cp w =
     clock w + max (- \<bar>clock_tolerance cp\<bar>) (min \<bar>clock_tolerance cp\<bar> (clock_error cp w))"

text \<open>The calls of the service clients, of \<^verbatim>\<open>input\<close> and of the identity lookup.\<close>

definition call_get_caller_identity :: "control_plane \<Rightarrow> world \<Rightarrow> (exn + string option) \<times> world" where
  "call_get_caller_identity cp w = invoke GetCallerIdentity (sts_get_caller_identity cp w) w"

definition call_create_gateway ::
  "control_plane \<Rightarrow> create_gateway_request \<Rightarrow> world \<Rightarrow> (exn + gateway) \<times> world" where
  "call_create_gateway cp kwargs w =
     invoke (CreateGateway kwargs) (agentcore_create_gateway cp w kwargs) w"

definition call_get_gateway :: "control_plane \<Rightarrow> string \<Rightarrow> world \<Rightarrow> (exn + gateway) \<times> world" where
  "call_get_gateway cp gateway_id w =
     invoke (GetGateway gateway_id) (agentcore_get_gateway cp w gateway_id) w"

definition call_list_gateways :: "control_plane \<Rightarrow> world \<Rightarrow> (exn + gateway list option) \<times> world" where
  "call_list_gateways cp w = invoke ListGateways (agentcore_list_gateways cp w) w"

definition call_delete_gateway :: "control_plane \<Rightarrow> string \<Rightarrow> world \<Rightarrow> (exn + unit) \<times> world" where
  "call_delete_gateway cp gateway_id w =
     invoke (DeleteGateway gateway_id) (agentcore_delete_gateway cp w gateway_id) w"

definition call_list_gateway_targets ::
  "control_plane \<Rightarrow> string \<Rightarrow> world \<Rightarrow> (exn + target list option) \<times> world" where
  "call_list_gateway_targets cp gateway_id w =
     invoke (ListGatewayTargets gateway_id) (agentcore_list_gateway_targets cp w gateway_id) w"

definition call_get_gateway_target ::
  "control_plane \<Rightarrow> string \<Rightarrow> string \<Rightarrow> world \<Rightarrow> (exn + target) \<times> world" where
  "call_get_gateway_target cp gateway_id target_id w =
     invoke (GetGatewayTarget gateway_id target_id)
       (agentcore_get_gateway_target cp w gateway_id target_id) w"

definition call_delete_gateway_target ::
  "control_plane \<Rightarrow> string \<Rightarrow> string \<Rightarrow> world \<Rightarrow> (exn + unit) \<times> world" where
  "call_delete_gateway_target cp gateway_id target_id w =
     invoke (DeleteGatewayTarget gateway_id target_id)
       (agentcore_delete_gateway_target cp w gateway_id target_id) w"

definition call_list_buckets :: "control_plane \<Rightarrow> world \<Rightarrow> (exn + s3_bucket list option) \<times> world" where
  "call_list_buckets cp w = invoke ListBuckets (s3_list_buckets cp w) w"

definition call_list_objects_v2 ::
  "control_plane \<Rightarrow> string \<Rightarrow> string \<Rightarrow> nat option \<Rightarrow> world \<Rightarrow> (exn + s3_listing) \<times> world" where
  "call_list_objects_v2 cp bucket pfx max_keys w =
     invoke (ListObjectsV2 bucket pfx max_keys) (s3_list_objects_v2 cp w bucket pfx max_keys) w"

definition call_delete_objects ::
  "control_plane \<Rightarrow> string \<Rightarrow> string list \<Rightarrow> world \<Rightarrow> (exn + unit) \<times> world" where
  "call_delete_objects cp bucket keys w =
     invoke (DeleteObjects bucket keys) (s3_delete_objects cp w bucket keys) w"

definition call_input :: "control_plane \<Rightarrow> string \<Rightarrow> world \<Rightarrow> (exn + string) \<times> world" where
  "call_input cp prompt w = invoke (Input prompt) (stdin_input cp w prompt) w"

lemma clock_sleep: "clock (sleep cp d w) = clock w + d + max 0 (sleep_extra cp w d)"
  by (simp add: sleep_def)

lemma time_time_bounds:
  "clock w - \<bar>clock_tolerance cp\<bar> \<le> time_time cp w"
  "time_time cp w \<le> clock w + \<bar>clock_tolerance cp\<bar>"
  by (simp_all add: time_time_def)

lemma budget_measure:
  fixes a b :: real
  assumes "0 < a" and "b \<le> a - 5"
  shows "nat \<lceil>b\<rceil> < nat \<lceil>a\<rceil>"
proof -
  have "\<lceil>b\<rceil> \<le> \<lceil>a - 5\<rceil>"
    using assms(2) by (rule ceiling_mono)
  moreover have "\<lceil>a - 5\<rceil> = \<lceil>a\<rceil> - 5"
    by simp
  moreover have "0 < \<lceil>a\<rceil>"
    using assms(1) by simp
  ultimately show ?thesis by linarith
qed

lemma budget_decreases:
  assumes "time_time cp w - start_time < real_of_int max_wait"
    and "clock w \<le> clock w1" and "5 \<le> d"
  shows "nat \<lceil>start_time + real_of_int max_wait + \<bar>clock_tolerance cp\<bar> - clock (sleep cp d w1)\<rceil>
         < nat \<lceil>start_time + real_of_int max_wait + \<bar>clock_tolerance cp\<bar> - clock w\<rceil>"
proof (rule budget_measure)
  show "0 < start_time + real_of_int max_wait + \<bar>clock_tolerance cp\<bar> - clock w"
    using assms(1) time_time_bounds(1)[of w cp] by linarith
  have "0 \<le> max 0 (sleep_extra cp w1 d)" by simp
  then show "start_time + real_of_int max_wait + \<bar>clock_tolerance cp\<bar> - clock (sleep cp d w1)
      \<le> start_time + real_of_int max_wait + \<bar>clock_tolerance cp\<bar> - clock w - 5"
    using assms(2,3) unfolding clock_sleep by linarith
qed

lemma clock_get_gateway:
  "(r, w1) = call_get_gateway cp g w \<Longrightarrow> clock w \<le> clock w1"
  by (auto simp: call_get_gateway_def invoke_def)

lemma clock_get_gateway_target:
  "(r, w1) = call_get_gateway_target cp g t w \<Longrightarrow> clock w \<le> clock w1"
  by (auto simp: call_get_gateway_target_def invoke_def)

section \<open>The gateway manager: waiting for activation\<close>

text \<open>
  \<^verbatim>\<open>_wait_for_gateway_active\<close>. \<open>start_time\<close> is the reading of
  \<^verbatim>\<open>time.time()\<close> on entry, and the loop runs while
  \<^verbatim>\<open>time.time() - start_time < max_wait\<close>. Its body is one \<^verbatim>\<open>try\<close>: the status
  fetch, the two comparisons, the \<^verbatim>\<open>raise Exception\<close> on \<open>FAILED\<close> and the
  ten-second sleep are all inside it, and the handler
  \<^verbatim>\<open>except Exception as e\<close> sleeps five seconds and continues when
  \<^verbatim>\<open>"ResourceNotFound" in str(e)\<close> and re-raises otherwise.
\<close>

function wait_for_gateway_active_loop ::
  "control_plane \<Rightarrow> string \<Rightarrow> int \<Rightarrow> real \<Rightarrow> world \<Rightarrow> (exn + unit) \<times> world" where
  "wait_for_gateway_active_loop cp gateway_id max_wait start_time w =
     (if time_time cp w - start_time < real_of_int max_wait then
        (case call_get_gateway cp gateway_id w of
           (Inr response, w1) \<Rightarrow>
             (if gatewayStatus response = Some ''ACTIVE'' then (Inr (), w1)
              else if gatewayStatus response = Some ''FAILED'' then
                (if str_in ''ResourceNotFound''
                      (str (Exception (''Gateway '' @ gateway_id @ '' failed to activate'')))
                 then wait_for_gateway_active_loop cp gateway_id max_wait start_time
                        (sleep cp 5 w1)
                 else (Inl (Exception (''Gateway '' @ gateway_id @ '' failed to activate'')), w1))
              else wait_for_gateway_active_loop cp gateway_id max_wait start_time
                     (sleep cp 10 w1))
         | (Inl e, w1) \<Rightarrow>
             (if str_in ''ResourceNotFound'' (str e)
              then wait_for_gateway_active_loop cp gateway_id max_wait start_time
                     (sleep cp 5 w1)
              else (Inl e, w1)))
      else
        (Inl (TimeoutError (''Gateway '' @ gateway_id @ '' did not become active within ''
                @ str_int max_wait @ '' seconds'')), w))"
  by pat_completeness auto
termination
  by (relation "measure (\<lambda>(cp, g, max_wait, start_time, w).
                  nat \<lceil>start_time + real_of_int max_wait + \<bar>clock_tolerance cp\<bar> - clock w\<rceil>)")
     (simp_all only: in_measure prod.case wf_measure,
      (rule budget_decreases, assumption, erule clock_get_gateway, simp)+)

declare wait_for_gateway_active_loop.simps [simp del]

definition wait_for_gateway_active ::
  "control_plane \<Rightarrow> string \<Rightarrow> int \<Rightarrow> world \<Rightarrow> (exn + unit) \<times> world" where
  "wait_for_gateway_active cp gateway_id max_wait w =
     wait_for_gateway_active_loop cp gateway_id max_wait (time_time cp w) w"




section \<open>The gateway manager: waiting for deletion\<close>

text \<open>
  \<^verbatim>\<open>_wait_for_gateway_deleted\<close> and \<^verbatim>\<open>_wait_for_target_deleted\<close>: a fetch that
  returns means the resource still exists (sleep ten seconds, poll again); a fetch that
  raises with \<^verbatim>\<open>"ResourceNotFound" in str(e)\<close> ends the wait normally; any other
  exception is re-raised.
\<close>

function wait_for_gateway_deleted_loop ::
  "control_plane \<Rightarrow> string \<Rightarrow> int \<Rightarrow> real \<Rightarrow> world \<Rightarrow> (exn + unit) \<times> world" where
  "wait_for_gateway_deleted_loop cp gateway_id max_wait start_time w =
     (if time_time cp w - start_time < real_of_int max_wait then
        (case call_get_gateway cp gateway_id w of
           (Inr response, w1) \<Rightarrow>
             wait_for_gateway_deleted_loop cp gateway_id max_wait start_time (sleep cp 10 w1)
         | (Inl e, w1) \<Rightarrow>
             (if str_in ''ResourceNotFound'' (str e) then (Inr (), w1) else (Inl e, w1)))
      else
        (Inl (TimeoutError (''Gateway '' @ gateway_id @ '' was not deleted within ''
                @ str_int max_wait @ '' seconds'')), w))"
  by pat_completeness auto
termination
  by (relation "measure (\<lambda>(cp, g, max_wait, start_time, w).
                  nat \<lceil>start_time + real_of_int max_wait + \<bar>clock_tolerance cp\<bar> - clock w\<rceil>)")
     (simp_all only: in_measure prod.case wf_measure,
      (rule budget_decreases, assumption, erule clock_get_gateway, simp)+)

declare wait_for_gateway_deleted_loop.simps [simp del]

definition wait_for_gateway_deleted ::
  "control_plane \<Rightarrow> string \<Rightarrow> int \<Rightarrow> world \<Rightarrow> (exn + unit) \<times> world" where
  "wait_for_gateway_deleted cp gateway_id max_wait w =
     wait_for_gateway_deleted_loop cp gateway_id max_wait (time_time cp w) w"

function wait_for_target_deleted_loop ::
  "control_plane \<Rightarrow> string \<Rightarrow> string \<Rightarrow> int \<Rightarrow> real \<Rightarrow> world \<Rightarrow> (exn + unit) \<times> world" where
  "wait_for_target_deleted_loop cp gateway_id target_id max_wait start_time w =
     (if time_time cp w - start_time < real_of_int max_wait then
        (case call_get_gateway_target cp gateway_id target_id w of
           (Inr response, w1) \<Rightarrow>
             wait_for_target_deleted_loop cp gateway_id target_id max_wait start_time
               (sleep cp 10 w1)
         | (Inl e, w1) \<Rightarrow>
             (if str_in ''ResourceNotFound'' (str e) then (Inr (), w1) else (Inl e, w1)))
      else
        (Inl (TimeoutError (''Target '' @ target_id @ '' was not deleted within ''
                @ str_int max_wait @ '' seconds'')), w))"
  by pat_completeness auto
termination
  by (relation "measure (\<lambda>(cp, g, t, max_wait, start_time, w).
                  nat \<lceil>start_time + real_of_int max_wait + \<bar>clock_tolerance cp\<bar> - clock w\<rceil>)")
     (simp_all only: in_measure prod.case wf_measure,
      (rule budget_decreases, assumption, erule clock_get_gateway_target, simp)+)

declare wait_for_target_deleted_loop.simps [simp del]

definition wait_for_target_deleted ::
  "control_plane \<Rightarrow> string \<Rightarrow> string \<Rightarrow> int \<Rightarrow> world \<Rightarrow> (exn + unit) \<times> world" where
  "wait_for_target_deleted cp gateway_id target_id max_wait w =
     wait_for_target_deleted_loop cp gateway_id target_id max_wait (time_time cp w) w"

section \<open>The gateway manager: creating and deleting a gateway\<close>

text \<open>
  The dictionaries the code builds and returns: an association list from key to value,
  in the order the literal is written.
\<close>

datatype pyval = Str string | Num int | PyNone

type_synonym pydict = "(string \<times> pyval) list"

record GatewayConfig =
  gateway_name :: string
  description :: string
  cognito_user_pool_id :: string
  cognito_client_id :: string
  cognito_domain :: string
  lambda_function_arn :: string
  region :: string

text \<open>\<^verbatim>\<open>_get_account_id\<close>: \<^verbatim>\<open>sts_client.get_caller_identity()['Account']\<close>.\<close>

definition get_account_id :: "control_plane \<Rightarrow> world \<Rightarrow> (exn + string) \<times> world" where
  "get_account_id cp w =
     (case call_get_caller_identity cp w of
        (Inl e, w1) \<Rightarrow> (Inl e, w1)
      | (Inr identity, w1) \<Rightarrow>
          (case identity of
             None \<Rightarrow> (Inl (KeyError ''Account''), w1)
           | Some account \<Rightarrow> (Inr account, w1)))"

text \<open>The keyword arguments of the create call, built from the configuration.\<close>

definition create_gateway_kwargs :: "GatewayConfig \<Rightarrow> string \<Rightarrow> create_gateway_request" where
  "create_gateway_kwargs config account_id =
     \<lparr>name = gateway_name config,
      req_description = description config,
      protocolType = ''MCP'',
      authorizerType = ''CUSTOM_JWT'',
      authorizerConfiguration =
        \<lparr>authorizerName = gateway_name config @ ''-authorizer'',
         tokenSource = ''authorization'',
         issuer = ''https://cognito-idp.'' @ region config @ ''.amazonaws.com/''
                    @ cognito_user_pool_id config,
         audience = [cognito_client_id config]\<rparr>,
      roleArn = ''arn:aws:iam::'' @ account_id @ '':role/BedrockAgentCoreGatewayRole''\<rparr>"

text \<open>
  \<^verbatim>\<open>create_gateway\<close>. The account lookup runs while the arguments are evaluated, before
  the create call; the wait uses the default budget of 300 seconds; \<open>gatewayArn\<close> is
  read after the wait. The \<^verbatim>\<open>except\<close> clause logs and re-raises, so every error passes
  through unchanged.
\<close>

definition create_gateway ::
  "control_plane \<Rightarrow> GatewayConfig \<Rightarrow> world \<Rightarrow> (exn + pydict) \<times> world" where
  "create_gateway cp config w =
     (case get_account_id cp w of
        (Inl e, w1) \<Rightarrow> (Inl e, w1)
      | (Inr account_id, w1) \<Rightarrow>
          (case call_create_gateway cp (create_gateway_kwargs config account_id) w1 of
             (Inl e, w2) \<Rightarrow> (Inl e, w2)
           | (Inr gateway_response, w2) \<Rightarrow>
               (case gatewayId gateway_response of
                  None \<Rightarrow> (Inl (KeyError ''gatewayId''), w2)
                | Some gateway_id \<Rightarrow>
                    (case wait_for_gateway_active cp gateway_id 300 w2 of
                       (Inl e, w3) \<Rightarrow> (Inl e, w3)
                     | (Inr _, w3) \<Rightarrow>
                         (case gatewayArn gateway_response of
                            None \<Rightarrow> (Inl (KeyError ''gatewayArn''), w3)
                          | Some gateway_arn \<Rightarrow>
                              (Inr [(''gateway_id'', Str gateway_id),
                                    (''gateway_arn'', Str gateway_arn),
                                    (''gateway_url'',
                                       case gatewayUrl gateway_response of
                                         None \<Rightarrow> PyNone | Some url \<Rightarrow> Str url),
                                    (''status'', Str ''created'')], w3))))))"

text \<open>
  \<^verbatim>\<open>delete_gateway\<close>: the loop over \<^verbatim>\<open>targets_response.get('targetSummaries', [])\<close>
  deletes each target and waits for its deletion; an exception anywhere leaves the
  function at once.
\<close>

fun delete_targets ::
  "control_plane \<Rightarrow> string \<Rightarrow> target list \<Rightarrow> world \<Rightarrow> (exn + unit) \<times> world" where
  "delete_targets cp gateway_id [] w = (Inr (), w)"
| "delete_targets cp gateway_id (t # ts) w =
     (case targetId t of
        None \<Rightarrow> (Inl (KeyError ''targetId''), w)
      | Some target_id \<Rightarrow>
          (case call_delete_gateway_target cp gateway_id target_id w of
             (Inl e, w1) \<Rightarrow> (Inl e, w1)
           | (Inr _, w1) \<Rightarrow>
               (case wait_for_target_deleted cp gateway_id target_id 300 w1 of
                  (Inl e, w2) \<Rightarrow> (Inl e, w2)
                | (Inr _, w2) \<Rightarrow> delete_targets cp gateway_id ts w2)))"

definition delete_gateway ::
  "control_plane \<Rightarrow> string \<Rightarrow> world \<Rightarrow> (exn + pydict) \<times> world" where
  "delete_gateway cp gateway_id w =
     (case call_list_gateway_targets cp gateway_id w of
        (Inl e, w1) \<Rightarrow> (Inl e, w1)
      | (Inr targets_response, w1) \<Rightarrow>
          (case delete_targets cp gateway_id
                  (case targets_response of None \<Rightarrow> [] | Some ts \<Rightarrow> ts) w1 of
             (Inl e, w2) \<Rightarrow> (Inl e, w2)
           | (Inr _, w2) \<Rightarrow>
               (case call_delete_gateway cp gateway_id w2 of
                  (Inl e, w3) \<Rightarrow> (Inl e, w3)
                | (Inr _, w3) \<Rightarrow>
                    (case wait_for_gateway_deleted cp gateway_id 300 w3 of
                       (Inl e, w4) \<Rightarrow> (Inl e, w4)
                     | (Inr _, w4) \<Rightarrow> (Inr [(''status'', Str ''deleted'')], w4)))))"

text \<open>The calls logged between two worlds, and how many of them are status fetches.\<close>

definition new_calls :: "world \<Rightarrow> world \<Rightarrow> (call \<times> outcome) list" where
  "new_calls w w' = drop (length (trace w)) (trace w')"

definition gateway_polls :: "string \<Rightarrow> (call \<times> outcome) list \<Rightarrow> nat" where
  "gateway_polls gateway_id calls = length (filter (\<lambda>c. fst c = GetGateway gateway_id) calls)"

section \<open>The cleanup sweep\<close>

text \<open>\<^verbatim>\<open>BedrockAgentCoreGatewayManager.list_gateways\<close>:
  \<^verbatim>\<open>response.get('gatewaySummaries', [])\<close>; an exception is logged and re-raised.\<close>

definition list_gateways :: "control_plane \<Rightarrow> world \<Rightarrow> (exn + gateway list) \<times> world" where
  "list_gateways cp w =
     (case call_list_gateways cp w of
        (Inl e, w1) \<Rightarrow> (Inl e, w1)
      | (Inr response, w1) \<Rightarrow> (Inr (case response of None \<Rightarrow> [] | Some gs \<Rightarrow> gs), w1))"

text \<open>\<^verbatim>\<open>_confirm_action\<close>:
  \<^verbatim>\<open>input(f"{message} (y/N): ").strip().lower() in ['y', 'yes']\<close>.\<close>

definition confirm_action :: "control_plane \<Rightarrow> string \<Rightarrow> world \<Rightarrow> (exn + bool) \<times> world" where
  "confirm_action cp message w =
     (case call_input cp (message @ '' (y/N): '') w of
        (Inl e, w1) \<Rightarrow> (Inl e, w1)
      | (Inr response, w1) \<Rightarrow> (Inr (lower (strip response) \<in> set [''y'', ''yes'']), w1))"

text \<open>The name test of the gateway sweep:
  \<^verbatim>\<open>'mcp' in gateway_name.lower() or 'bedrock' in gateway_name.lower()\<close>, on
  \<^verbatim>\<open>gateway.get('gatewayName', 'Unknown')\<close>.\<close>

definition gateway_name_of :: "gateway \<Rightarrow> string" where
  "gateway_name_of g = (case gatewayName g of None \<Rightarrow> ''Unknown'' | Some n \<Rightarrow> n)"

definition is_our_gateway :: "gateway \<Rightarrow> bool" where
  "is_our_gateway g =
     (str_in ''mcp'' (lower (gateway_name_of g)) \<or> str_in ''bedrock'' (lower (gateway_name_of g)))"

text \<open>The two records the sweep appends for a gateway, and the one for a failed listing.\<close>

definition deleted_record :: "string \<Rightarrow> string \<Rightarrow> pydict" where
  "deleted_record gateway_id gw_name =
     [(''gateway_id'', Str gateway_id), (''gateway_name'', Str gw_name),
      (''status'', Str ''deleted'')]"

definition error_record :: "string \<Rightarrow> string \<Rightarrow> exn \<Rightarrow> pydict" where
  "error_record gateway_id gw_name e =
     [(''gateway_id'', Str gateway_id), (''gateway_name'', Str gw_name),
      (''status'', Str ''error''),
      (''error'', Str (''Failed to delete gateway '' @ gateway_id @ '': '' @ str e))]"

definition list_error_record :: "exn \<Rightarrow> pydict" where
  "list_error_record e =
     [(''status'', Str ''error''), (''error'', Str (''Failed to list gateways: '' @ str e))]"

text \<open>
  The \<^verbatim>\<open>for gateway in gateways\<close> loop of \<^verbatim>\<open>cleanup_gateways\<close>, with the list
  \<open>results\<close> it appends to. \<^verbatim>\<open>gateway['gatewayId']\<close> and the prompt stand outside the
  inner \<^verbatim>\<open>try\<close>: an exception there leaves the loop (\<open>Inl\<close>) with the records
  appended so far. \<^verbatim>\<open>force or self._confirm_action(...)\<close> asks only when \<open>force\<close>
  is false. The inner \<^verbatim>\<open>try\<close> turns a failed \<^verbatim>\<open>delete_gateway\<close> into a record.
\<close>

fun cleanup_gateways_loop ::
  "bool \<Rightarrow> control_plane \<Rightarrow> gateway list \<Rightarrow> pydict list \<Rightarrow> world
     \<Rightarrow> (exn + unit) \<times> pydict list \<times> world" where
  "cleanup_gateways_loop force cp [] results w = (Inr (), results, w)"
| "cleanup_gateways_loop force cp (g # gs) results w =
     (case gatewayId g of
        None \<Rightarrow> (Inl (KeyError ''gatewayId''), results, w)
      | Some gateway_id \<Rightarrow>
          (if is_our_gateway g then
             (case (if force then (Inr True, w)
                    else confirm_action cp
                           (''Delete gateway '' @ gateway_name_of g @ '' ('' @ gateway_id @ '')?'') w) of
                (Inl e, w1) \<Rightarrow> (Inl e, results, w1)
              | (Inr confirmed, w1) \<Rightarrow>
                  (if confirmed then
                     (case delete_gateway cp gateway_id w1 of
                        (Inr _, w2) \<Rightarrow>
                          cleanup_gateways_loop force cp gs
                            (results @ [deleted_record gateway_id (gateway_name_of g)]) w2
                      | (Inl e, w2) \<Rightarrow>
                          cleanup_gateways_loop force cp gs
                            (results @ [error_record gateway_id (gateway_name_of g) e]) w2)
                   else cleanup_gateways_loop force cp gs results w1))
           else cleanup_gateways_loop force cp gs results w))"

text \<open>
  \<^verbatim>\<open>cleanup_gateways\<close>: the outer \<^verbatim>\<open>except Exception\<close> appends the listing-failure
  record to whatever \<open>results\<close> holds, and the function returns \<open>results\<close>.
\<close>

definition cleanup_gateways ::
  "control_plane \<Rightarrow> bool \<Rightarrow> world \<Rightarrow> (exn + pydict list) \<times> world" where
  "cleanup_gateways cp force w =
     (case list_gateways cp w of
        (Inl e, w1) \<Rightarrow> (Inr [list_error_record e], w1)
      | (Inr gateways, w1) \<Rightarrow>
          (case cleanup_gateways_loop force cp gateways [] w1 of
             (Inl e, results, w2) \<Rightarrow> (Inr (results @ [list_error_record e]), w2)
           | (Inr _, results, w2) \<Rightarrow> (Inr results, w2)))"

text \<open>\<^verbatim>\<open>_bucket_has_mcp_data\<close>: one listing with \<^verbatim>\<open>MaxKeys=1\<close>;
  \<^verbatim>\<open>response.get('KeyCount', 0) > 0\<close>; the bare \<^verbatim>\<open>except\<close> answers \<open>False\<close>.\<close>

definition bucket_has_mcp_data :: "control_plane \<Rightarrow> string \<Rightarrow> world \<Rightarrow> bool \<times> world" where
  "bucket_has_mcp_data cp bucket_name w =
     (case call_list_objects_v2 cp bucket_name ''mcp-data/'' (Some 1) w of
        (Inl e, w1) \<Rightarrow> (False, w1)
      | (Inr response, w1) \<Rightarrow>
          ((case KeyCount response of None \<Rightarrow> 0 | Some k \<Rightarrow> k) > 0, w1))"

text \<open>\<^verbatim>\<open>objects_to_delete\<close>: \<^verbatim>\<open>{'Key': obj['Key']}\<close> for each listed object.\<close>

fun objects_to_delete :: "s3_object list \<Rightarrow> exn + string list" where
  "objects_to_delete [] = Inr []"
| "objects_to_delete (obj # objs) =
     (case Key obj of
        None \<Rightarrow> Inl (KeyError ''Key'')
      | Some k \<Rightarrow> (case objects_to_delete objs of Inl e \<Rightarrow> Inl e | Inr ks \<Rightarrow> Inr (k # ks)))"

definition cleaned_record :: "string \<Rightarrow> nat \<Rightarrow> pydict" where
  "cleaned_record bucket_name n =
     [(''bucket_name'', Str bucket_name), (''objects_deleted'', Num (int n)),
      (''status'', Str ''cleaned'')]"

definition bucket_error_record :: "string \<Rightarrow> exn \<Rightarrow> pydict" where
  "bucket_error_record bucket_name e =
     [(''bucket_name'', Str bucket_name), (''status'', Str ''error''), (''error'', Str (str e))]"

text \<open>The handler of the inner \<^verbatim>\<open>try\<close> of \<^verbatim>\<open>cleanup_s3_data\<close>.\<close>

definition bucket_except :: "string \<Rightarrow> pydict list \<Rightarrow> exn \<Rightarrow> pydict list" where
  "bucket_except bucket_name results e =
     (if \<not> str_in ''NoSuchBucket'' (str e) then results @ [bucket_error_record bucket_name e]
      else results)"

text \<open>The inner \<^verbatim>\<open>try\<close> for one selected bucket: list the objects under
  \<^verbatim>\<open>mcp-data/\<close>, and delete them in one batch \<^verbatim>\<open>if objects_to_delete\<close>.\<close>

definition clean_bucket ::
  "control_plane \<Rightarrow> string \<Rightarrow> pydict list \<Rightarrow> world \<Rightarrow> pydict list \<times> world" where
  "clean_bucket cp bucket_name results w =
     (case call_list_objects_v2 cp bucket_name ''mcp-data/'' None w of
        (Inl e, w1) \<Rightarrow> (bucket_except bucket_name results e, w1)
      | (Inr objects_response, w1) \<Rightarrow>
          (case objects_to_delete
                  (case Contents objects_response of None \<Rightarrow> [] | Some objs \<Rightarrow> objs) of
             Inl e \<Rightarrow> (bucket_except bucket_name results e, w1)
           | Inr keys \<Rightarrow>
               (if keys \<noteq> [] then
                  (case call_delete_objects cp bucket_name keys w1 of
                     (Inl e, w2) \<Rightarrow> (bucket_except bucket_name results e, w2)
                   | (Inr _, w2) \<Rightarrow>
                       (results @ [cleaned_record bucket_name (length keys)], w2))
                else (results, w1))))"

text \<open>The bucket test of the sweep:
  \<^verbatim>\<open>'mcp' in bucket_name.lower() or self._bucket_has_mcp_data(bucket_name)\<close>; the
  probe runs only when the name does not match.\<close>

definition bucket_selected :: "control_plane \<Rightarrow> string \<Rightarrow> world \<Rightarrow> bool \<times> world" where
  "bucket_selected cp bucket_name w =
     (if str_in ''mcp'' (lower bucket_name) then (True, w)
      else bucket_has_mcp_data cp bucket_name w)"

fun cleanup_s3_loop ::
  "control_plane \<Rightarrow> s3_bucket list \<Rightarrow> pydict list \<Rightarrow> world
     \<Rightarrow> (exn + unit) \<times> pydict list \<times> world" where
  "cleanup_s3_loop cp [] results w = (Inr (), results, w)"
| "cleanup_s3_loop cp (bucket # buckets) results w =
     (case Name bucket of
        None \<Rightarrow> (Inl (KeyError ''Name''), results, w)
      | Some bucket_name \<Rightarrow>
          (case bucket_selected cp bucket_name w of
             (selected, w1) \<Rightarrow>
               (if selected then
                  (case clean_bucket cp bucket_name results w1 of
                     (results', w2) \<Rightarrow> cleanup_s3_loop cp buckets results' w2)
                else cleanup_s3_loop cp buckets results w1)))"

definition s3_list_error_record :: "exn \<Rightarrow> pydict" where
  "s3_list_error_record e =
     [(''status'', Str ''error''), (''error'', Str (''Failed to list S3 buckets: '' @ str e))]"

definition cleanup_s3_data :: "control_plane \<Rightarrow> world \<Rightarrow> (exn + pydict list) \<times> world" where
  "cleanup_s3_data cp w =
     (case call_list_buckets cp w of
        (Inl e, w1) \<Rightarrow> (Inr [s3_list_error_record e], w1)
      | (Inr buckets_response, w1) \<Rightarrow>
          (case cleanup_s3_loop cp
                  (case buckets_response of None \<Rightarrow> [] | Some bs \<Rightarrow> bs) [] w1 of
             (Inl e, results, w2) \<Rightarrow> (Inr (results @ [s3_list_error_record e]), w2)
           | (Inr _, results, w2) \<Rightarrow> (Inr results, w2)))"

section \<open>Vocabulary of the properties\<close>





text \<open>
  The test of the wait loops: read in the world \<open>w\<close>, the clock is less than
  \<open>max_wait\<close> seconds past \<open>start_time\<close>.
\<close>

definition in_budget :: "control_plane \<Rightarrow> int \<Rightarrow> real \<Rightarrow> world \<Rightarrow> bool" where
  "in_budget cp max_wait start_time w = (time_time cp w - start_time < real_of_int max_wait)"

text \<open>
  What a status fetch made in a world answers: an error with \<open>ResourceNotFound\<close> in its
  text; a response with a given status; a response whose status is neither \<open>ACTIVE\<close>
  nor \<open>FAILED\<close> (another text, or no status field). A fetch with one of the first and
  the last of these answers is \<open>pending\<close>.
\<close>

definition gateway_not_found :: "control_plane \<Rightarrow> string \<Rightarrow> world \<Rightarrow> bool" where
  "gateway_not_found cp gateway_id w =
     (case fst (call_get_gateway cp gateway_id w) of
        Inl e \<Rightarrow> str_in ''ResourceNotFound'' (str e)
      | Inr response \<Rightarrow> False)"

definition gateway_status_is :: "control_plane \<Rightarrow> string \<Rightarrow> string option \<Rightarrow> world \<Rightarrow> bool" where
  "gateway_status_is cp gateway_id st w =
     (case fst (call_get_gateway cp gateway_id w) of
        Inl e \<Rightarrow> False
      | Inr response \<Rightarrow> gatewayStatus response = st)"

definition gateway_other_status :: "control_plane \<Rightarrow> string \<Rightarrow> world \<Rightarrow> bool" where
  "gateway_other_status cp gateway_id w =
     (case fst (call_get_gateway cp gateway_id w) of
        Inl e \<Rightarrow> False
      | Inr response \<Rightarrow>
          gatewayStatus response \<noteq> Some ''ACTIVE'' \<and> gatewayStatus response \<noteq> Some ''FAILED'')"

definition gateway_pending :: "control_plane \<Rightarrow> string \<Rightarrow> world \<Rightarrow> bool" where
  "gateway_pending cp gateway_id w =
     (gateway_not_found cp gateway_id w \<or> gateway_other_status cp gateway_id w)"





text \<open>
  The polling of an activation wait, written without the loops: a round is one status fetch
  and the sleep after it, of five seconds when the fetch raised and of ten seconds when it
  returned; \<open>gateway_rounds cp gateway_id n w\<close> is the world that \<open>n\<close> rounds make of
  \<open>w\<close>, the world in which fetch number \<open>n\<close> (counted from zero) is due.
\<close>

definition gateway_round :: "control_plane \<Rightarrow> string \<Rightarrow> world \<Rightarrow> world" where
  "gateway_round cp gateway_id w =
     (case call_get_gateway cp gateway_id w of
        (Inl e, w1) \<Rightarrow> sleep cp 5 w1
      | (Inr response, w1) \<Rightarrow> sleep cp 10 w1)"

definition gateway_rounds :: "control_plane \<Rightarrow> string \<Rightarrow> nat \<Rightarrow> world \<Rightarrow> world" where
  "gateway_rounds cp gateway_id n w = (gateway_round cp gateway_id ^^ n) w"






section \<open>Concrete environments\<close>

definition not_found :: exn where
  "not_found =
     ClientError ''An error occurred (ResourceNotFoundException): the resource does not exist''"

definition gateway_with_status :: "string \<Rightarrow> string option \<Rightarrow> gateway" where
  "gateway_with_status g st =
     \<lparr>gatewayId = Some g, gatewayArn = None, gatewayUrl = None, gatewayName = None,
      gatewayStatus = st\<rparr>"

text \<open>
  An account that holds nothing: listings are empty, reading a gateway or a target raises
  \<open>not_found\<close>, every call answers at once. A created gateway gets its name with a
  suffix as its id.
\<close>

definition cp_quiet :: control_plane where
  "cp_quiet =
     \<lparr>sts_get_caller_identity = (\<lambda>w. (Inr (Some ''123456789012''), 0)),
      agentcore_create_gateway =
        (\<lambda>w r. (Inr \<lparr>gatewayId = Some (name r @ ''-a1b2c3d4e5''),
                      gatewayArn = Some (''arn:aws:bedrock-agentcore:gateway/'' @ name r),
                      gatewayUrl = None, gatewayName = Some (name r),
                      gatewayStatus = Some ''CREATING''\<rparr>, 0)),
      agentcore_get_gateway = (\<lambda>w g. (Inl not_found, 0)),
      agentcore_list_gateways = (\<lambda>w. (Inr (Some []), 0)),
      agentcore_delete_gateway = (\<lambda>w g. (Inr (), 0)),
      agentcore_list_gateway_targets = (\<lambda>w g. (Inr (Some []), 0)),
      agentcore_get_gateway_target = (\<lambda>w g t. (Inl not_found, 0)),
      agentcore_delete_gateway_target = (\<lambda>w g t. (Inr (), 0)),
      s3_list_buckets = (\<lambda>w. (Inr (Some []), 0)),
      s3_list_objects_v2 = (\<lambda>w b p k. (Inr \<lparr>Contents = None, KeyCount = Some 0\<rparr>, 0)),
      s3_delete_objects = (\<lambda>w b ks. (Inr (), 0)),
      stdin_input = (\<lambda>w p. (Inr ''n'', 0)),
      sleep_extra = (\<lambda>w d. 0),
      clock_error = (\<lambda>w. 0),
      clock_tolerance = 0\<rparr>"

definition demo_config :: GatewayConfig where
  "demo_config =
     \<lparr>gateway_name = ''mcp-demo-gateway'', description = ''demo'',
      cognito_user_pool_id = ''us-west-2_AbCdEf'', cognito_client_id = ''client123'',
      cognito_domain = ''demo'', lambda_function_arn = ''arn:aws:lambda:fn'',
      region = ''us-west-2''\<rparr>"

definition w0 :: world where
  "w0 = \<lparr>clock = 0, trace = []\<rparr>"

text \<open>The gateway, and any target, is \<open>CREATING\<close> for twenty seconds, then
  \<open>ACTIVE\<close>.\<close>

definition cp_activating :: control_plane where
  "cp_activating =
     cp_quiet\<lparr>agentcore_get_gateway :=
       (\<lambda>w g. (Inr (gateway_with_status g
                  (Some (if clock w < 20 then ''CREATING'' else ''ACTIVE''))), 0)),
       agentcore_get_gateway_target :=
         (\<lambda>w g t. (Inr \<lparr>targetId = Some t,
                          targetStatus = Some (if clock w < 20 then ''CREATING'' else ''ACTIVE'')\<rparr>,
                     0))\<rparr>"

text \<open>The gateway stays \<open>CREATING\<close>; in \<open>cp_slow\<close> each fetch takes five seconds.\<close>

definition cp_stuck :: control_plane where
  "cp_stuck =
     cp_quiet\<lparr>agentcore_get_gateway :=
       (\<lambda>w g. (Inr (gateway_with_status g (Some ''CREATING'')), 0))\<rparr>"





text \<open>
  The gateway stays \<open>CREATING\<close>, fetches take no time and sleeps do not overrun. In
  \<open>cp_rounding\<close> the readings of the clock from 300 seconds on come out a millionth of
  a second low; in \<open>cp_set_back\<close> the clock of the machine is set back by 300 seconds
  once 150 seconds have passed.
\<close>

definition cp_rounding :: control_plane where
  "cp_rounding =
     cp_stuck\<lparr>clock_error := (\<lambda>w. if clock w < 300 then 0 else - (1 / 1000000)),
       clock_tolerance := 1 / 1000000\<rparr>"


text \<open>The control plane names the new gateway \<open>ResourceNotFound-gw\<close>; its status is
  \<open>FAILED\<close> from the first fetch on.\<close>

definition cp_failed :: control_plane where
  "cp_failed =
     cp_quiet\<lparr>agentcore_create_gateway :=
       (\<lambda>w r. (Inr \<lparr>gatewayId = Some ''ResourceNotFound-gw'',
                     gatewayArn = Some ''arn:aws:bedrock-agentcore:gateway/ResourceNotFound-gw'',
                     gatewayUrl = None, gatewayName = Some (name r),
                     gatewayStatus = Some ''CREATING''\<rparr>, 0)),
       agentcore_get_gateway :=
         (\<lambda>w g. (Inr (gateway_with_status g (Some ''FAILED'')), 0))\<rparr>"

section \<open>Vocabulary of the deletion order\<close>

text \<open>
  In a log of calls, the target's delete call was issued and returned, and later a fetch
  of that target raised an error with \<open>ResourceNotFound\<close> in its text, which is what
  ends \<^verbatim>\<open>_wait_for_target_deleted\<close> normally.
\<close>

fun is_absence_confirmation :: "string \<Rightarrow> string \<Rightarrow> call \<times> outcome \<Rightarrow> bool" where
  "is_absence_confirmation g t (GetGatewayTarget g' t', Raised e) =
     (g' = g \<and> t' = t \<and> str_in ''ResourceNotFound'' (str e))"
| "is_absence_confirmation g t _ = False"

definition deleted_and_confirmed :: "string \<Rightarrow> string \<Rightarrow> (call \<times> outcome) list \<Rightarrow> bool" where
  "deleted_and_confirmed g t calls =
     list_ex (is_absence_confirmation g t)
       (dropWhile (\<lambda>c. c \<noteq> (DeleteGatewayTarget g t, Returned)) calls)"

text \<open>A gateway with two targets; a target is still readable until ten seconds have
  passed.\<close>

definition cp_two_targets :: control_plane where
  "cp_two_targets =
     cp_quiet\<lparr>agentcore_list_gateway_targets :=
       (\<lambda>w g. (Inr (Some [\<lparr>targetId = Some ''T1'', targetStatus = Some ''ACTIVE''\<rparr>,
                           \<lparr>targetId = Some ''T2'', targetStatus = Some ''ACTIVE''\<rparr>]), 0)),
       agentcore_get_gateway_target :=
         (\<lambda>w g t. (if clock w < 10
                    then Inr \<lparr>targetId = Some t, targetStatus = Some ''DELETING''\<rparr>
                    else Inl not_found, 0))\<rparr>"

text \<open>A gateway that is gone: every operation on it raises \<open>not_found\<close>. In
  \<open>cp_absent_listed\<close> only the target listing still answers, with no targets.\<close>

definition cp_absent :: control_plane where
  "cp_absent =
     cp_quiet\<lparr>agentcore_list_gateway_targets := (\<lambda>w g. (Inl not_found, 0)),
       agentcore_delete_gateway := (\<lambda>w g. (Inl not_found, 0))\<rparr>"

definition cp_absent_listed :: control_plane where
  "cp_absent_listed = cp_quiet\<lparr>agentcore_delete_gateway := (\<lambda>w g. (Inl not_found, 0))\<rparr>"

section \<open>Vocabulary of the sweeps\<close>

text \<open>
  The gateways a sweep attempts when \<open>force\<close> is set are those that pass the name test;
  \<open>candidate_ids\<close> are their ids, in listing order. \<open>deletion_failures\<close> runs
  \<open>delete_gateway\<close> on these ids one after the other, each in the world the one before
  left behind, and tells for each whether it raised.
\<close>

definition candidate_ids :: "gateway list \<Rightarrow> string list" where
  "candidate_ids gateways =
     List.map_filter (\<lambda>g. if is_our_gateway g then gatewayId g else None) gateways"

fun deletion_failures :: "control_plane \<Rightarrow> string list \<Rightarrow> world \<Rightarrow> bool list" where
  "deletion_failures cp [] w = []"
| "deletion_failures cp (gateway_id # ids) w =
     (case delete_gateway cp gateway_id w of
        (r, w') \<Rightarrow> isl r # deletion_failures cp ids w')"

definition status_of :: "pydict \<Rightarrow> pyval option" where
  "status_of r = map_of r ''status''"

definition status_for :: "bool \<Rightarrow> pyval option" where
  "status_for failed = Some (Str (if failed then ''error'' else ''deleted''))"

text \<open>A record names one of the listed gateways that pass the name test.\<close>

definition names_candidate :: "gateway list \<Rightarrow> pydict \<Rightarrow> bool" where
  "names_candidate gateways r =
     list_ex (\<lambda>g. is_our_gateway g
                \<and> (case gatewayId g of
                      None \<Rightarrow> False
                    | Some gateway_id \<Rightarrow> map_of r ''gateway_id'' = Some (Str gateway_id)))
       gateways"

text \<open>What the listing of a bucket's objects under \<open>mcp-data/\<close> returns in a world:
  \<open>None\<close> when it raises, else the objects of
  \<^verbatim>\<open>objects_response.get('Contents', [])\<close>.\<close>

definition listed_objects :: "control_plane \<Rightarrow> string \<Rightarrow> world \<Rightarrow> s3_object list option" where
  "listed_objects cp bucket_name w =
     (case fst (call_list_objects_v2 cp bucket_name ''mcp-data/'' None w) of
        Inl e \<Rightarrow> None
      | Inr objects_response \<Rightarrow>
          Some (case Contents objects_response of None \<Rightarrow> [] | Some objs \<Rightarrow> objs))"

text \<open>Three gateways are listed; two pass the name test, and the control plane refuses to
  delete one of those. At the prompt, the user accepts for \<open>gw-a\<close> only.\<close>

definition access_denied :: exn where
  "access_denied = ClientError ''An error occurred (AccessDeniedException): not authorized''"

definition listed_gateway :: "string \<Rightarrow> string \<Rightarrow> gateway" where
  "listed_gateway gateway_id gw_name =
     \<lparr>gatewayId = Some gateway_id, gatewayArn = None, gatewayUrl = None,
      gatewayName = Some gw_name, gatewayStatus = Some ''ACTIVE''\<rparr>"

definition cp_sweep :: control_plane where
  "cp_sweep =
     cp_quiet\<lparr>agentcore_list_gateways :=
       (\<lambda>w. (Inr (Some [listed_gateway ''gw-a'' ''mcp-demo-gateway'',
                        listed_gateway ''gw-b'' ''unrelated-service'',
                        listed_gateway ''gw-c'' ''Bedrock-Test'']), 0)),
       agentcore_delete_gateway :=
         (\<lambda>w g. (if g = ''gw-c'' then Inl access_denied else Inr (), 0)),
       stdin_input := (\<lambda>w p. (Inr (if str_in ''gw-a'' p then '' Yes '' else ''n''), 0))\<rparr>"

text \<open>Three buckets: one with three objects under the prefix, one that matches by name and
  holds nothing there, one that matches neither by name nor by content.\<close>

definition cp_buckets :: control_plane where
  "cp_buckets =
     cp_quiet\<lparr>s3_list_buckets :=
       (\<lambda>w. (Inr (Some [\<lparr>Name = Some ''mcp-artifacts''\<rparr>, \<lparr>Name = Some ''empty-mcp''\<rparr>,
                        \<lparr>Name = Some ''photos''\<rparr>]), 0)),
       s3_list_objects_v2 :=
         (\<lambda>w b p k.
            (if b = ''mcp-artifacts''
             then Inr \<lparr>Contents = Some [\<lparr>Key = Some ''mcp-data/a''\<rparr>, \<lparr>Key = Some ''mcp-data/b''\<rparr>,
                                       \<lparr>Key = Some ''mcp-data/c''\<rparr>],
                       KeyCount = Some 3\<rparr>
             else Inr \<lparr>Contents = None, KeyCount = Some 0\<rparr>, 0))\<rparr>"

text \<open>One bucket, selected by its name; the listing of its objects is refused.\<close>

definition cp_denied :: control_plane where
  "cp_denied =
     cp_quiet\<lparr>s3_list_buckets := (\<lambda>w. (Inr (Some [\<lparr>Name = Some ''mcp-logs''\<rparr>]), 0)),
       s3_list_objects_v2 := (\<lambda>w b p k. (Inl access_denied, 0))\<rparr>"

section \<open>Facts about the call log and the waits\<close>

lemma trace_sleep: "trace (sleep cp d w) = trace w"
  by (simp add: sleep_def)

subsection \<open>The activation wait of a gateway\<close>

lemma gateway_active_pending_step:
  assumes "in_budget cp mw s w" and "gateway_pending cp g w"
  shows "wait_for_gateway_active_loop cp g mw s w =
         wait_for_gateway_active_loop cp g mw s (gateway_round cp g w)"
proof -
  obtain r w1 where f: "call_get_gateway cp g w = (r, w1)"
    by (cases "call_get_gateway cp g w")
  show ?thesis
    using assms f
    by (subst wait_for_gateway_active_loop.simps)
       (auto simp: in_budget_def gateway_pending_def gateway_not_found_def
          gateway_other_status_def gateway_round_def
          split: sum.splits simp del: str_in.simps)
qed

lemma gateway_rounds_Suc:
  "gateway_rounds cp g (Suc n) w = gateway_round cp g (gateway_rounds cp g n w)"
  by (simp add: gateway_rounds_def)

lemma gateway_rounds_0: "gateway_rounds cp g 0 w = w"
  by (simp add: gateway_rounds_def)

text \<open>While the fetches are pending and within the budget, the wait is still to come.\<close>

lemma gateway_active_rounds:
  assumes "\<forall>k<n. in_budget cp mw s (gateway_rounds cp g k w)
                \<and> gateway_pending cp g (gateway_rounds cp g k w)"
  shows "wait_for_gateway_active_loop cp g mw s w =
         wait_for_gateway_active_loop cp g mw s (gateway_rounds cp g n w)"
  using assms
proof (induction n)
  case 0
  show ?case by (simp add: gateway_rounds_0)
next
  case (Suc n)
  have "wait_for_gateway_active_loop cp g mw s w =
        wait_for_gateway_active_loop cp g mw s (gateway_rounds cp g n w)"
    using Suc by simp
  also have "\<dots> = wait_for_gateway_active_loop cp g mw s
                     (gateway_round cp g (gateway_rounds cp g n w))"
    using Suc.prems by (intro gateway_active_pending_step) simp_all
  finally show ?case by (simp add: gateway_rounds_Suc)
qed


lemma gateway_active_success:
  assumes "in_budget cp mw s w" and "gateway_status_is cp g (Some ''ACTIVE'') w"
  shows "wait_for_gateway_active_loop cp g mw s w = (Inr (), snd (call_get_gateway cp g w))"
proof -
  obtain r w1 where f: "call_get_gateway cp g w = (r, w1)"
    by (cases "call_get_gateway cp g w")
  show ?thesis
    using assms f
    by (subst wait_for_gateway_active_loop.simps)
       (auto simp: in_budget_def gateway_status_is_def split: sum.splits simp del: str_in.simps)
qed


text \<open>The log and the clock after a number of rounds.\<close>

lemma call_get_gateway_trace:
  "call_get_gateway cp g w = (r, w1) \<Longrightarrow> \<exists>out. trace w1 = trace w @ [(GetGateway g, out)]"
  by (auto simp: call_get_gateway_def invoke_def)

lemma gateway_round_trace:
  "\<exists>out. trace (gateway_round cp g w) = trace w @ [(GetGateway g, out)]"
  by (auto simp: gateway_round_def call_get_gateway_def invoke_def trace_sleep split: sum.splits)



lemma gateway_rounds_calls:
  "\<exists>calls. trace (gateway_rounds cp g n w) = trace w @ calls
     \<and> map fst calls = replicate n (GetGateway g)"
proof (induction n)
  case 0
  show ?case by (simp add: gateway_rounds_0)
next
  case (Suc n)
  then obtain calls where c: "trace (gateway_rounds cp g n w) = trace w @ calls"
    "map fst calls = replicate n (GetGateway g)"
    by blast
  obtain out where
    "trace (gateway_round cp g (gateway_rounds cp g n w)) =
       trace (gateway_rounds cp g n w) @ [(GetGateway g, out)]"
    using gateway_round_trace by blast
  with c have "trace (gateway_rounds cp g (Suc n) w) = trace w @ (calls @ [(GetGateway g, out)])"
    "map fst (calls @ [(GetGateway g, out)]) = replicate (Suc n) (GetGateway g)"
    by (simp_all add: gateway_rounds_Suc replicate_append_same)
  then show ?case by blast
qed










subsection \<open>The activation wait of a target\<close>






















subsection \<open>The calls of a creation, and the time a round takes\<close>

lemma get_account_id_trace:
  "get_account_id cp w = (Inr a, w1) \<Longrightarrow> trace w1 = trace w @ [(GetCallerIdentity, Returned)]"
  by (auto simp: get_account_id_def call_get_caller_identity_def invoke_def
      split: sum.splits option.splits)

lemma call_create_gateway_trace:
  "call_create_gateway cp kw w = (Inr r, w1) \<Longrightarrow> trace w1 = trace w @ [(CreateGateway kw, Returned)]"
  by (auto simp: call_create_gateway_def invoke_def split: sum.splits)






section \<open>Activation waits: transient not-found\<close>



section \<open>Activation waits: statuses other than ACTIVE and FAILED\<close>



section \<open>Creating a gateway\<close>

text \<open>
  C3, as the code has it. Let the identity lookup and the create call return, the response
  carry \<open>gatewayId\<close> and \<open>gatewayArn\<close>, and the polled status reach \<open>ACTIVE\<close> within
  the budget of 300 seconds: the first \<open>n\<close> status fetches are due within the budget and
  pending (not found, or a status other than \<open>ACTIVE\<close> and \<open>FAILED\<close>), and the next
  one is due within the budget and answers \<open>ACTIVE\<close>. Then \<open>create_gateway\<close> returns
  the handle, whose \<open>status\<close> is the fixed text \<open>created\<close>, in the world that fetch
  leaves. The calls it made are the identity lookup, one create call and these \<open>n + 1\<close>
  status fetches; the create call's authorizer has as issuer the URL built from the region
  and the user-pool id of the configuration, and as audience the list of the one client id
  of the configuration.
\<close>

theorem create_gateway_returns_created:
  assumes "get_account_id cp w = (Inr account_id, w1)"
    and "call_create_gateway cp (create_gateway_kwargs config account_id) w1 = (Inr response, w2)"
    and "gatewayId response = Some gateway_id"
    and "gatewayArn response = Some gateway_arn"
    and "\<forall>k<n. in_budget cp 300 (time_time cp w2) (gateway_rounds cp gateway_id k w2)
                \<and> gateway_pending cp gateway_id (gateway_rounds cp gateway_id k w2)"
    and "in_budget cp 300 (time_time cp w2) (gateway_rounds cp gateway_id n w2)"
    and "gateway_status_is cp gateway_id (Some ''ACTIVE'') (gateway_rounds cp gateway_id n w2)"
  shows "create_gateway cp config w =
           (Inr [(''gateway_id'', Str gateway_id), (''gateway_arn'', Str gateway_arn),
                 (''gateway_url'', case gatewayUrl response of None \<Rightarrow> PyNone | Some url \<Rightarrow> Str url),
                 (''status'', Str ''created'')],
            snd (call_get_gateway cp gateway_id (gateway_rounds cp gateway_id n w2)))
       \<and> map fst (new_calls w
                    (snd (call_get_gateway cp gateway_id (gateway_rounds cp gateway_id n w2)))) =
           GetCallerIdentity # CreateGateway (create_gateway_kwargs config account_id)
             # replicate (Suc n) (GetGateway gateway_id)
       \<and> issuer (authorizerConfiguration (create_gateway_kwargs config account_id)) =
           ''https://cognito-idp.'' @ region config @ ''.amazonaws.com/''
             @ cognito_user_pool_id config
       \<and> audience (authorizerConfiguration (create_gateway_kwargs config account_id)) =
           [cognito_client_id config]"
proof (intro conjI)
  let ?W = "gateway_rounds cp gateway_id n w2"
  let ?w3 = "snd (call_get_gateway cp gateway_id ?W)"
  have "wait_for_gateway_active cp gateway_id 300 w2 =
        wait_for_gateway_active_loop cp gateway_id 300 (time_time cp w2) ?W"
    unfolding wait_for_gateway_active_def using assms(5) by (rule gateway_active_rounds)
  also have "\<dots> = (Inr (), ?w3)"
    using assms(6,7) by (rule gateway_active_success)
  finally have wait: "wait_for_gateway_active cp gateway_id 300 w2 = (Inr (), ?w3)" .
  show "create_gateway cp config w =
           (Inr [(''gateway_id'', Str gateway_id), (''gateway_arn'', Str gateway_arn),
                 (''gateway_url'', case gatewayUrl response of None \<Rightarrow> PyNone | Some url \<Rightarrow> Str url),
                 (''status'', Str ''created'')], ?w3)"
    using assms(1-4) wait by (simp add: create_gateway_def)
  obtain calls where c: "trace ?W = trace w2 @ calls"
    "map fst calls = replicate n (GetGateway gateway_id)"
    using gateway_rounds_calls by blast
  obtain out where o: "trace ?w3 = trace ?W @ [(GetGateway gateway_id, out)]"
    using call_get_gateway_trace[of cp gateway_id ?W "fst (call_get_gateway cp gateway_id ?W)" ?w3]
    by auto
  have "trace ?w3 = trace w @ (GetCallerIdentity, Returned)
      # (CreateGateway (create_gateway_kwargs config account_id), Returned)
      # calls @ [(GetGateway gateway_id, out)]"
    using o c(1) get_account_id_trace[OF assms(1)] call_create_gateway_trace[OF assms(2)]
    by simp
  then show "map fst (new_calls w ?w3) =
           GetCallerIdentity # CreateGateway (create_gateway_kwargs config account_id)
             # replicate (Suc n) (GetGateway gateway_id)"
    using c(2) by (simp add: new_calls_def replicate_append_same)
next
  show "issuer (authorizerConfiguration (create_gateway_kwargs config account_id)) =
           ''https://cognito-idp.'' @ region config @ ''.amazonaws.com/''
             @ cognito_user_pool_id config"
    by (simp add: create_gateway_kwargs_def)
next
  show "audience (authorizerConfiguration (create_gateway_kwargs config account_id)) =
           [cognito_client_id config]"
    by (simp add: create_gateway_kwargs_def)
qed

lemmas eval_defs =
  create_gateway_def get_account_id_def call_get_caller_identity_def call_create_gateway_def
  call_get_gateway_def invoke_def sleep_def wait_for_gateway_active_def create_gateway_kwargs_def
  gateway_with_status_def cp_quiet_def demo_config_def w0_def str_int_def

theorem create_gateway_returns_created_witness:
  "get_account_id cp_activating w0 =
     (Inr ''123456789012'', snd (get_account_id cp_activating w0))
   \<and> fst (call_create_gateway cp_activating (create_gateway_kwargs demo_config ''123456789012'')
            (snd (get_account_id cp_activating w0))) =
       Inr \<lparr>gatewayId = Some ''mcp-demo-gateway-a1b2c3d4e5'',
            gatewayArn = Some ''arn:aws:bedrock-agentcore:gateway/mcp-demo-gateway'',
            gatewayUrl = None, gatewayName = Some ''mcp-demo-gateway'',
            gatewayStatus = Some ''CREATING''\<rparr>
   \<and> list_all
        (\<lambda>k. in_budget cp_activating 300
               (time_time cp_activating
                  (snd (call_create_gateway cp_activating
                          (create_gateway_kwargs demo_config ''123456789012'')
                          (snd (get_account_id cp_activating w0)))))
               (gateway_rounds cp_activating ''mcp-demo-gateway-a1b2c3d4e5'' k
                  (snd (call_create_gateway cp_activating
                          (create_gateway_kwargs demo_config ''123456789012'')
                          (snd (get_account_id cp_activating w0)))))
             \<and> gateway_pending cp_activating ''mcp-demo-gateway-a1b2c3d4e5''
                 (gateway_rounds cp_activating ''mcp-demo-gateway-a1b2c3d4e5'' k
                    (snd (call_create_gateway cp_activating
                            (create_gateway_kwargs demo_config ''123456789012'')
                            (snd (get_account_id cp_activating w0))))))
        [0..<2]
   \<and> in_budget cp_activating 300
        (time_time cp_activating
           (snd (call_create_gateway cp_activating
                   (create_gateway_kwargs demo_config ''123456789012'')
                   (snd (get_account_id cp_activating w0)))))
        (gateway_rounds cp_activating ''mcp-demo-gateway-a1b2c3d4e5'' 2
           (snd (call_create_gateway cp_activating
                   (create_gateway_kwargs demo_config ''123456789012'')
                   (snd (get_account_id cp_activating w0)))))
   \<and> gateway_status_is cp_activating ''mcp-demo-gateway-a1b2c3d4e5'' (Some ''ACTIVE'')
        (gateway_rounds cp_activating ''mcp-demo-gateway-a1b2c3d4e5'' 2
           (snd (call_create_gateway cp_activating
                   (create_gateway_kwargs demo_config ''123456789012'')
                   (snd (get_account_id cp_activating w0)))))
   \<and> fst (create_gateway cp_activating demo_config w0) =
       Inr [(''gateway_id'', Str ''mcp-demo-gateway-a1b2c3d4e5''),
            (''gateway_arn'', Str ''arn:aws:bedrock-agentcore:gateway/mcp-demo-gateway''),
            (''gateway_url'', PyNone), (''status'', Str ''created'')]
   \<and> clock (snd (create_gateway cp_activating demo_config w0)) = 20
   \<and> map fst (new_calls w0 (snd (create_gateway cp_activating demo_config w0))) =
       [GetCallerIdentity, CreateGateway (create_gateway_kwargs demo_config ''123456789012''),
        GetGateway ''mcp-demo-gateway-a1b2c3d4e5'', GetGateway ''mcp-demo-gateway-a1b2c3d4e5'',
        GetGateway ''mcp-demo-gateway-a1b2c3d4e5'']
   \<and> issuer (authorizerConfiguration (create_gateway_kwargs demo_config ''123456789012'')) =
       ''https://cognito-idp.us-west-2.amazonaws.com/us-west-2_AbCdEf''
   \<and> audience (authorizerConfiguration (create_gateway_kwargs demo_config ''123456789012'')) =
       [''client123'']"
proof -
  let ?g = "''mcp-demo-gateway-a1b2c3d4e5''"
  let ?w1 = "snd (get_account_id cp_activating w0)"
  let ?kw = "create_gateway_kwargs demo_config ''123456789012''"
  let ?w2 = "snd (call_create_gateway cp_activating ?kw ?w1)"
  let ?W = "gateway_rounds cp_activating ?g 2 ?w2"
  let ?w3 = "snd (call_get_gateway cp_activating ?g ?W)"
  let ?resp = "\<lparr>gatewayId = Some ?g,
      gatewayArn = Some ''arn:aws:bedrock-agentcore:gateway/mcp-demo-gateway'',
      gatewayUrl = None, gatewayName = Some ''mcp-demo-gateway'',
      gatewayStatus = Some ''CREATING''\<rparr>"
  have a1: "get_account_id cp_activating w0 = (Inr ''123456789012'', ?w1)"
    by (simp add: eval_defs cp_activating_def)
  have a2: "call_create_gateway cp_activating ?kw ?w1 = (Inr ?resp, ?w2)"
    by (simp add: eval_defs cp_activating_def)
  have a3: "gatewayId ?resp = Some ?g"
    and a4: "gatewayArn ?resp = Some ''arn:aws:bedrock-agentcore:gateway/mcp-demo-gateway''"
    by simp_all
  have a5: "list_all (\<lambda>k. in_budget cp_activating 300 (time_time cp_activating ?w2)
                             (gateway_rounds cp_activating ?g k ?w2)
                       \<and> gateway_pending cp_activating ?g (gateway_rounds cp_activating ?g k ?w2))
              [0..<2]"
    by code_simp
  have a5': "\<forall>k<2. in_budget cp_activating 300 (time_time cp_activating ?w2)
                             (gateway_rounds cp_activating ?g k ?w2)
                       \<and> gateway_pending cp_activating ?g (gateway_rounds cp_activating ?g k ?w2)"
    using a5 unfolding list_all_iff by simp
  have a6: "in_budget cp_activating 300 (time_time cp_activating ?w2) ?W"
    by code_simp
  have a7: "gateway_status_is cp_activating ?g (Some ''ACTIVE'') ?W"
    by code_simp
  have c: "clock ?w3 = 20"
    by code_simp
  note created = create_gateway_returns_created[OF a1 a2 a3 a4 a5' a6 a7]
  from created have r: "create_gateway cp_activating demo_config w0 =
      (Inr [(''gateway_id'', Str ?g),
            (''gateway_arn'', Str ''arn:aws:bedrock-agentcore:gateway/mcp-demo-gateway''),
            (''gateway_url'', PyNone), (''status'', Str ''created'')], ?w3)"
    by simp
  from created r have t: "map fst (new_calls w0 (snd (create_gateway cp_activating demo_config w0))) =
      [GetCallerIdentity, CreateGateway ?kw, GetGateway ?g, GetGateway ?g, GetGateway ?g]"
    by (simp add: numeral_2_eq_2)
  have i: "issuer (authorizerConfiguration ?kw) =
       ''https://cognito-idp.us-west-2.amazonaws.com/us-west-2_AbCdEf''"
    and u: "audience (authorizerConfiguration ?kw) = [''client123'']"
    using created by (simp_all add: demo_config_def)
  have a2': "fst (call_create_gateway cp_activating ?kw ?w1) = Inr ?resp"
    by (simp add: eval_defs cp_activating_def)
  from a1 a2' a5 a6 a7 r c t i u show ?thesis
    by simp
qed

text \<open>
  C3 as stated fails: the gateway below is fetched \<open>CREATING\<close> twice and then
  \<open>ACTIVE\<close>, and the handle returned has the status \<open>created\<close>, not \<open>ACTIVE\<close>;
  the issuer sent is not a value of the configuration but a URL built around two of them.
\<close>

theorem create_gateway_status_counterexample:
  "fst (create_gateway cp_activating demo_config w0) =
     Inr [(''gateway_id'', Str ''mcp-demo-gateway-a1b2c3d4e5''),
          (''gateway_arn'', Str ''arn:aws:bedrock-agentcore:gateway/mcp-demo-gateway''),
          (''gateway_url'', PyNone), (''status'', Str ''created'')]
   \<and> map_of (projr (fst (create_gateway cp_activating demo_config w0))) ''status''
       \<noteq> Some (Str ''ACTIVE'')
   \<and> map snd (new_calls w0 (snd (create_gateway cp_activating demo_config w0))) =
       [Returned, Returned, Returned, Returned, Returned]
   \<and> issuer (authorizerConfiguration (create_gateway_kwargs demo_config ''123456789012'')) =
       ''https://cognito-idp.us-west-2.amazonaws.com/us-west-2_AbCdEf''"
  by code_simp

section \<open>The wait budget counted in polls\<close>




text \<open>
  Within the bounds, the count depends on the readings of the clock: 30 fetches when every
  reading is exact, 31 when the readings from 300 seconds on come out a millionth of a
  second low, as the rounding of floating-point numbers can make them.
\<close>

lemma create_gateway_polls_exact_and_rounded:
  "gateway_polls ''mcp-demo-gateway-a1b2c3d4e5''
     (new_calls w0 (snd (create_gateway cp_stuck demo_config w0))) = 30
   \<and> gateway_polls ''mcp-demo-gateway-a1b2c3d4e5''
       (new_calls w0 (snd (create_gateway cp_rounding demo_config w0))) = 31"
  by code_simp

section \<open>A failed activation\<close>

text \<open>
  C4 at the gateway id \<open>ResourceNotFound-gw\<close>. The error raised on \<open>FAILED\<close> is raised
  inside the \<^verbatim>\<open>try\<close> whose handler retries every error with \<open>ResourceNotFound\<close> in
  its text, and its text holds the gateway id. So the first \<open>FAILED\<close> is followed by 59
  more status fetches, and what \<open>create_gateway\<close> raises in the end is the timeout
  error. For an id that does not bring the marker into the text, lemma
  \<open>gateway_active_failure\<close> shows the wait raising at once.
\<close>

theorem create_gateway_failed_is_retried:
  "fst (create_gateway cp_failed demo_config w0) =
     Inl (TimeoutError ''Gateway ResourceNotFound-gw did not become active within 300 seconds'')
   \<and> gateway_polls ''ResourceNotFound-gw''
       (new_calls w0 (snd (create_gateway cp_failed demo_config w0))) = 60"
  by code_simp


section \<open>Facts about the deletion waits and the target loop\<close>

lemma call_get_gateway_target_outcome:
  "call_get_gateway_target cp g t w = (r, w1) \<Longrightarrow>
     trace w1 = trace w @ [(GetGatewayTarget g t, case r of Inl e \<Rightarrow> Raised e | Inr _ \<Rightarrow> Returned)]"
  by (auto simp: call_get_gateway_target_def invoke_def)

lemma target_deleted_trace:
  "wait_for_target_deleted_loop cp g t mw s w = (r, w') \<Longrightarrow>
     \<exists>calls. trace w' = trace w @ calls
        \<and> (\<forall>c\<in>set calls. fst c = GetGatewayTarget g t)
        \<and> (r = Inr () \<longrightarrow> list_ex (is_absence_confirmation g t) calls)"
proof (induction cp g t mw s w rule: wait_for_target_deleted_loop.induct)
  case (1 cp g t mw s w)
  show ?case
  proof (cases "time_time cp w - s < real_of_int mw")
    case False
    with "1.prems" have "w' = w" "r \<noteq> Inr ()"
      by (subst (asm) wait_for_target_deleted_loop.simps; auto)+
    then show ?thesis by simp
  next
    case True
    obtain r1 w1 where f: "call_get_gateway_target cp g t w = (r1, w1)"
      by (cases "call_get_gateway_target cp g t w")
    note t1 = call_get_gateway_target_outcome[OF f]
    show ?thesis
    proof (cases r1)
      case (Inr response)
      with "1.prems" True f have
        "wait_for_target_deleted_loop cp g t mw s (sleep cp 10 w1) = (r, w')"
        by (subst (asm) wait_for_target_deleted_loop.simps) simp
      from "1.IH"[OF True f[symmetric] Inr this] obtain calls where
        c: "trace w' = trace (sleep cp 10 w1) @ calls"
          "\<forall>c\<in>set calls. fst c = GetGatewayTarget g t"
          "r = Inr () \<longrightarrow> list_ex (is_absence_confirmation g t) calls"
        by blast
      have "trace w' = trace w @ ((GetGatewayTarget g t, Returned) # calls)"
        using c(1) t1 Inr by (simp add: trace_sleep)
      moreover have "\<forall>c\<in>set ((GetGatewayTarget g t, Returned) # calls). fst c = GetGatewayTarget g t"
        using c(2) by simp
      moreover have "r = Inr () \<longrightarrow>
          list_ex (is_absence_confirmation g t) ((GetGatewayTarget g t, Returned) # calls)"
        using c(3) by simp
      ultimately show ?thesis by blast
    next
      case (Inl e)
      with "1.prems" True f have
        res: "w' = w1" "r = Inr () \<longrightarrow> str_in ''ResourceNotFound'' (str e)"
        by (subst (asm) wait_for_target_deleted_loop.simps;
            auto split: if_splits simp del: str_in.simps)+
      have "trace w' = trace w @ [(GetGatewayTarget g t, Raised e)]"
        using t1 Inl res(1) by simp
      moreover have "r = Inr () \<longrightarrow>
          list_ex (is_absence_confirmation g t) [(GetGatewayTarget g t, Raised e)]"
        using res(2) by (simp del: str_in.simps)
      ultimately show ?thesis by (intro exI[of _ "[(GetGatewayTarget g t, Raised e)]"]) simp
    qed
  qed
qed

lemma gateway_deleted_trace:
  "wait_for_gateway_deleted_loop cp g mw s w = (r, w') \<Longrightarrow>
     \<exists>calls. trace w' = trace w @ calls \<and> (\<forall>c\<in>set calls. fst c = GetGateway g)"
proof (induction cp g mw s w rule: wait_for_gateway_deleted_loop.induct)
  case (1 cp g mw s w)
  show ?case
  proof (cases "time_time cp w - s < real_of_int mw")
    case False
    with "1.prems" have "w' = w"
      by (subst (asm) wait_for_gateway_deleted_loop.simps) auto
    then show ?thesis by simp
  next
    case True
    obtain r1 w1 where f: "call_get_gateway cp g w = (r1, w1)"
      by (cases "call_get_gateway cp g w")
    from call_get_gateway_trace[OF f] obtain out where
      t1: "trace w1 = trace w @ [(GetGateway g, out)]" by blast
    show ?thesis
    proof (cases r1)
      case (Inr response)
      with "1.prems" True f have
        "wait_for_gateway_deleted_loop cp g mw s (sleep cp 10 w1) = (r, w')"
        by (subst (asm) wait_for_gateway_deleted_loop.simps) simp
      from "1.IH"[OF True f[symmetric] Inr this] obtain calls where
        "trace w' = trace (sleep cp 10 w1) @ calls" "\<forall>c\<in>set calls. fst c = GetGateway g"
        by blast
      then have "trace w' = trace w @ ((GetGateway g, out) # calls)
          \<and> (\<forall>c\<in>set ((GetGateway g, out) # calls). fst c = GetGateway g)"
        using t1 by (simp add: trace_sleep)
      then show ?thesis by blast
    next
      case (Inl e)
      with "1.prems" True f have "w' = w1"
        by (subst (asm) wait_for_gateway_deleted_loop.simps)
           (auto split: if_splits simp del: str_in.simps)
      then show ?thesis using t1 by simp
    qed
  qed
qed

lemma deleted_and_confirmed_first:
  "list_ex (is_absence_confirmation g t) calls \<Longrightarrow>
     deleted_and_confirmed g t ((DeleteGatewayTarget g t, Returned) # calls)"
  by (simp add: deleted_and_confirmed_def)

lemma deleted_and_confirmed_append:
  "deleted_and_confirmed g t xs \<Longrightarrow> deleted_and_confirmed g t (xs @ ys)"
proof -
  let ?P = "\<lambda>c. c \<noteq> (DeleteGatewayTarget g t, Returned)"
  assume a: "deleted_and_confirmed g t xs"
  have "\<not> (\<forall>x\<in>set xs. ?P x)"
  proof
    assume "\<forall>x\<in>set xs. ?P x"
    then have "dropWhile ?P xs = []" by simp
    with a show False by (simp add: deleted_and_confirmed_def)
  qed
  then obtain x where "x \<in> set xs" "\<not> ?P x" by blast
  then have "dropWhile ?P (xs @ ys) = dropWhile ?P xs @ ys"
    by (rule dropWhile_append1)
  moreover from a have "list_ex (is_absence_confirmation g t) (dropWhile ?P xs)"
    by (simp only: deleted_and_confirmed_def)
  ultimately show ?thesis
    by (simp only: deleted_and_confirmed_def list_ex_append simp_thms)
qed

lemma deleted_and_confirmed_prepend:
  "deleted_and_confirmed g t ys \<Longrightarrow> deleted_and_confirmed g t (xs @ ys)"
proof (induction xs)
  case Nil
  then show ?case by simp
next
  case (Cons x xs)
  let ?P = "\<lambda>c. c \<noteq> (DeleteGatewayTarget g t, Returned)"
  from Cons have ih: "list_ex (is_absence_confirmation g t) (dropWhile ?P (xs @ ys))"
    by (simp add: deleted_and_confirmed_def)
  then have "list_ex (is_absence_confirmation g t) (xs @ ys)"
    by (meson list_ex_iff set_dropWhileD)
  with ih show ?case
    by (simp add: deleted_and_confirmed_def)
qed

lemma delete_targets_trace:
  "delete_targets cp g ts w = (r, w') \<Longrightarrow>
     \<exists>calls. trace w' = trace w @ calls
        \<and> (\<forall>c\<in>set calls. fst c \<noteq> DeleteGateway g)
        \<and> (r = Inr () \<longrightarrow>
             (\<forall>t\<in>set ts. \<exists>tid. targetId t = Some tid \<and> deleted_and_confirmed g tid calls))"
proof (induction ts arbitrary: w)
  case Nil
  then show ?case by simp
next
  case (Cons t ts)
  show ?case
  proof (cases "targetId t")
    case None
    with Cons.prems have "w' = w" "r \<noteq> Inr ()" by auto
    then show ?thesis by simp
  next
    case (Some tid)
    obtain r1 w1 where d: "call_delete_gateway_target cp g tid w = (r1, w1)"
      by (cases "call_delete_gateway_target cp g tid w")
    then have t1: "trace w1 = trace w @ [(DeleteGatewayTarget g tid,
        case r1 of Inl e \<Rightarrow> Raised e | Inr _ \<Rightarrow> Returned)]"
      by (auto simp: call_delete_gateway_target_def invoke_def)
    show ?thesis
    proof (cases r1)
      case (Inl e)
      with Cons.prems Some d have "w' = w1" "r \<noteq> Inr ()" by auto
      then show ?thesis using t1 by simp
    next
      case (Inr u)
      obtain r2 w2 where wt: "wait_for_target_deleted cp g tid 300 w1 = (r2, w2)"
        by (cases "wait_for_target_deleted cp g tid 300 w1")
      from target_deleted_trace[OF wt[unfolded wait_for_target_deleted_def]]
      obtain polls where p: "trace w2 = trace w1 @ polls"
        "\<forall>c\<in>set polls. fst c = GetGatewayTarget g tid"
        "r2 = Inr () \<longrightarrow> list_ex (is_absence_confirmation g tid) polls"
        by blast
      let ?seg = "(DeleteGatewayTarget g tid, Returned) # polls"
      have t2: "trace w2 = trace w @ ?seg"
        using p(1) t1 Inr by simp
      have no2: "\<forall>c\<in>set ?seg. fst c \<noteq> DeleteGateway g"
        using p(2) by auto
      show ?thesis
      proof (cases r2)
        case (Inl e)
        with Cons.prems Some d Inr wt have "w' = w2" "r \<noteq> Inr ()" by auto
        then show ?thesis using t2 no2 by blast
      next
        case r2: (Inr u2)
        with Cons.prems Some d Inr wt have "delete_targets cp g ts w2 = (r, w')" by simp
        from Cons.IH[OF this] obtain calls where c: "trace w' = trace w2 @ calls"
          "\<forall>c\<in>set calls. fst c \<noteq> DeleteGateway g"
          "r = Inr () \<longrightarrow>
             (\<forall>t\<in>set ts. \<exists>tid. targetId t = Some tid \<and> deleted_and_confirmed g tid calls)"
          by blast
        have first: "deleted_and_confirmed g tid (?seg @ calls)"
          using p(3) r2 by (intro deleted_and_confirmed_append deleted_and_confirmed_first) simp
        have rest: "r = Inr () \<longrightarrow> (\<forall>t\<in>set ts. \<exists>tid. targetId t = Some tid
            \<and> deleted_and_confirmed g tid (?seg @ calls))"
          using c(3) by (blast intro: deleted_and_confirmed_prepend)
        have "trace w' = trace w @ (?seg @ calls)"
          using c(1) t2 by simp
        moreover have "\<forall>c\<in>set (?seg @ calls). fst c \<noteq> DeleteGateway g"
          using c(2) no2 by auto
        moreover have "r = Inr () \<longrightarrow> (\<forall>t\<in>set (t # ts). \<exists>tid. targetId t = Some tid
            \<and> deleted_and_confirmed g tid (?seg @ calls))"
          using first rest Some by simp
        ultimately show ?thesis by blast
      qed
    qed
  qed
qed

lemma split_at_only:
  assumes "xs @ a # ys = pre @ b # post"
    and "\<forall>c\<in>set pre. \<not> Q c" and "\<forall>c\<in>set post. \<not> Q c" and "Q a"
  shows "xs = pre"
  using assms
proof (induction xs arbitrary: pre)
  case Nil
  then show ?case by (cases pre) auto
next
  case (Cons x xs)
  then show ?case by (cases pre) auto
qed

section \<open>Deleting a gateway: targets first\<close>

text \<open>
  C1. Take any run of \<open>delete_gateway\<close> and any place in the calls it made where the
  parent's delete call stands. Then the target listing had returned, and for every target
  it listed, the calls before that place hold the target's delete call, returned, and
  after it a fetch of that target answered with a not-found error, the answer that ends
  the deletion wait normally. The run is arbitrary: whatever the control plane answers
  and however long it takes.
\<close>

theorem delete_gateway_targets_first:
  assumes "delete_gateway cp gateway_id w = (r, w')"
    and "new_calls w w' = before @ (DeleteGateway gateway_id, out) # after"
  shows "\<exists>targets_response w1.
           call_list_gateway_targets cp gateway_id w = (Inr targets_response, w1)
           \<and> (\<forall>t\<in>set (case targets_response of None \<Rightarrow> [] | Some ts \<Rightarrow> ts).
                 \<exists>target_id. targetId t = Some target_id
                    \<and> deleted_and_confirmed gateway_id target_id before)"
proof -
  let ?Q = "\<lambda>c :: call \<times> outcome. fst c = DeleteGateway gateway_id"
  obtain r1 w1 where l: "call_list_gateway_targets cp gateway_id w = (r1, w1)"
    by (cases "call_list_gateway_targets cp gateway_id w")
  then have t1: "trace w1 = trace w @ [(ListGatewayTargets gateway_id,
      case r1 of Inl e \<Rightarrow> Raised e | Inr _ \<Rightarrow> Returned)]"
    by (auto simp: call_list_gateway_targets_def invoke_def)
  show ?thesis
  proof (cases r1)
    case (Inl e)
    with assms(1) l have "w' = w1" by (simp add: delete_gateway_def)
    with t1 have "new_calls w w' = [(ListGatewayTargets gateway_id,
        case r1 of Inl e \<Rightarrow> Raised e | Inr _ \<Rightarrow> Returned)]"
      by (simp add: new_calls_def)
    with assms(2) show ?thesis
      by (auto simp: Cons_eq_append_conv)
  next
    case (Inr targets_response)
    let ?ts = "case targets_response of None \<Rightarrow> [] | Some ts \<Rightarrow> ts"
    let ?l = "(ListGatewayTargets gateway_id, Returned)"
    obtain r2 w2 where d: "delete_targets cp gateway_id ?ts w1 = (r2, w2)"
      by (cases "delete_targets cp gateway_id ?ts w1")
    from delete_targets_trace[OF d] obtain calls where
      c: "trace w2 = trace w1 @ calls" "\<forall>c\<in>set calls. fst c \<noteq> DeleteGateway gateway_id"
        "r2 = Inr () \<longrightarrow> (\<forall>t\<in>set ?ts. \<exists>tid. targetId t = Some tid
            \<and> deleted_and_confirmed gateway_id tid calls)"
      by blast
    have t2: "trace w2 = trace w @ ?l # calls"
      using c(1) t1 Inr by simp
    show ?thesis
    proof (cases r2)
      case (Inl e)
      with assms(1) l Inr d have "w' = w2" by (simp add: delete_gateway_def)
      with t2 have "new_calls w w' = ?l # calls"
        by (simp add: new_calls_def)
      with assms(2) have "(DeleteGateway gateway_id, out) \<in> set (?l # calls)"
        by (metis in_set_conv_decomp)
      with c(2) show ?thesis by auto
    next
      case r2: (Inr u)
      obtain r3 w3 where g: "call_delete_gateway cp gateway_id w2 = (r3, w3)"
        by (cases "call_delete_gateway cp gateway_id w2")
      then obtain out3 where t3: "trace w3 = trace w2 @ [(DeleteGateway gateway_id, out3)]"
        by (auto simp: call_delete_gateway_def invoke_def)
      have "\<exists>polls. trace w' = trace w3 @ polls \<and> (\<forall>c\<in>set polls. fst c = GetGateway gateway_id)"
      proof (cases r3)
        case (Inl e)
        with assms(1) l Inr d r2 g have "w' = w3" by (simp add: delete_gateway_def)
        then show ?thesis by simp
      next
        case r3: (Inr u3)
        obtain r4 w4 where wt: "wait_for_gateway_deleted cp gateway_id 300 w3 = (r4, w4)"
          by (cases "wait_for_gateway_deleted cp gateway_id 300 w3")
        with assms(1) l Inr d r2 g r3 have "w' = w4"
          by (auto simp: delete_gateway_def split: sum.splits)
        with gateway_deleted_trace[OF wt[unfolded wait_for_gateway_deleted_def]]
        show ?thesis by simp
      qed
      then obtain polls where p: "trace w' = trace w3 @ polls"
        "\<forall>c\<in>set polls. fst c = GetGateway gateway_id"
        by blast
      have "new_calls w w' = (?l # calls) @ (DeleteGateway gateway_id, out3) # polls"
        using p(1) t3 t2 by (simp add: new_calls_def)
      with assms(2) have
        eq: "before @ (DeleteGateway gateway_id, out) # after =
             (?l # calls) @ (DeleteGateway gateway_id, out3) # polls"
        by simp
      have "before = ?l # calls"
      proof (rule split_at_only[OF eq, of ?Q])
        show "\<forall>c\<in>set (?l # calls). \<not> ?Q c" using c(2) by simp
        show "\<forall>c\<in>set polls. \<not> ?Q c" using p(2) by simp
        show "?Q (DeleteGateway gateway_id, out)" by simp
      qed
      moreover have "\<forall>t\<in>set ?ts. \<exists>tid. targetId t = Some tid
          \<and> deleted_and_confirmed gateway_id tid ([?l] @ calls)"
      proof
        fix t
        assume "t \<in> set ?ts"
        with c(3) r2 obtain tid where "targetId t = Some tid"
          "deleted_and_confirmed gateway_id tid calls"
          by auto
        then show "\<exists>tid. targetId t = Some tid
            \<and> deleted_and_confirmed gateway_id tid ([?l] @ calls)"
          using deleted_and_confirmed_prepend by blast
      qed
      ultimately show ?thesis
        using l Inr by simp
    qed
  qed
qed

lemmas delete_eval_defs =
  delete_gateway_def call_list_gateway_targets_def call_delete_gateway_target_def
  call_get_gateway_target_def call_delete_gateway_def call_get_gateway_def invoke_def sleep_def
  wait_for_target_deleted_def wait_for_gateway_deleted_def cp_quiet_def w0_def not_found_def
  new_calls_def wait_for_target_deleted_loop.simps wait_for_gateway_deleted_loop.simps
  time_time_def

theorem delete_gateway_targets_first_witness:
  "delete_gateway cp_two_targets ''gw-1'' w0 =
     (Inr [(''status'', Str ''deleted'')],
      \<lparr>clock = 10,
       trace = [(ListGatewayTargets ''gw-1'', Returned),
                (DeleteGatewayTarget ''gw-1'' ''T1'', Returned),
                (GetGatewayTarget ''gw-1'' ''T1'', Returned),
                (GetGatewayTarget ''gw-1'' ''T1'', Raised not_found),
                (DeleteGatewayTarget ''gw-1'' ''T2'', Returned),
                (GetGatewayTarget ''gw-1'' ''T2'', Raised not_found),
                (DeleteGateway ''gw-1'', Returned),
                (GetGateway ''gw-1'', Raised not_found)]\<rparr>)
   \<and> deleted_and_confirmed ''gw-1'' ''T1''
       [(ListGatewayTargets ''gw-1'', Returned),
        (DeleteGatewayTarget ''gw-1'' ''T1'', Returned),
        (GetGatewayTarget ''gw-1'' ''T1'', Returned),
        (GetGatewayTarget ''gw-1'' ''T1'', Raised not_found),
        (DeleteGatewayTarget ''gw-1'' ''T2'', Returned),
        (GetGatewayTarget ''gw-1'' ''T2'', Raised not_found)]
   \<and> deleted_and_confirmed ''gw-1'' ''T2''
       [(ListGatewayTargets ''gw-1'', Returned),
        (DeleteGatewayTarget ''gw-1'' ''T1'', Returned),
        (GetGatewayTarget ''gw-1'' ''T1'', Returned),
        (GetGatewayTarget ''gw-1'' ''T1'', Raised not_found),
        (DeleteGatewayTarget ''gw-1'' ''T2'', Returned),
        (GetGatewayTarget ''gw-1'' ''T2'', Raised not_found)]"
proof -
  let ?before = "[(ListGatewayTargets ''gw-1'', Returned),
        (DeleteGatewayTarget ''gw-1'' ''T1'', Returned),
        (GetGatewayTarget ''gw-1'' ''T1'', Returned),
        (GetGatewayTarget ''gw-1'' ''T1'', Raised not_found),
        (DeleteGatewayTarget ''gw-1'' ''T2'', Returned),
        (GetGatewayTarget ''gw-1'' ''T2'', Raised not_found)]"
  let ?w' = "\<lparr>clock = 10,
       trace = ?before @ [(DeleteGateway ''gw-1'', Returned),
                (GetGateway ''gw-1'', Raised not_found)]\<rparr>"
  have run: "delete_gateway cp_two_targets ''gw-1'' w0 = (Inr [(''status'', Str ''deleted'')], ?w')"
    by (simp add: delete_eval_defs cp_two_targets_def)
  have split: "new_calls w0 ?w' =
      ?before @ (DeleteGateway ''gw-1'', Returned) # [(GetGateway ''gw-1'', Raised not_found)]"
    by (simp add: new_calls_def w0_def)
  have listing: "call_list_gateway_targets cp_two_targets ''gw-1'' w0 =
      (Inr (Some [\<lparr>targetId = Some ''T1'', targetStatus = Some ''ACTIVE''\<rparr>,
                  \<lparr>targetId = Some ''T2'', targetStatus = Some ''ACTIVE''\<rparr>]),
       \<lparr>clock = 0, trace = [(ListGatewayTargets ''gw-1'', Returned)]\<rparr>)"
    by (simp add: delete_eval_defs cp_two_targets_def)
  from delete_gateway_targets_first[OF run split] listing
  have "deleted_and_confirmed ''gw-1'' ''T1'' ?before
      \<and> deleted_and_confirmed ''gw-1'' ''T2'' ?before"
    by simp
  with run show ?thesis by simp
qed

section \<open>Deleting a gateway that is already gone\<close>

text \<open>
  C2, as the code has it. \<open>delete_gateway\<close> takes a not-found answer for success in
  one place only, the wait that follows an accepted delete call: when the target listing
  returns no targets, the delete call returns and the next fetch of the gateway raises an
  error with \<open>ResourceNotFound\<close> in its text, it returns \<open>{'status': 'deleted'}\<close>. An
  error raised by the target listing, or by the delete call, leaves \<open>delete_gateway\<close>
  as it is, a not-found error included.
\<close>

theorem delete_gateway_not_found_success_only_in_wait:
  "(call_list_gateway_targets cp gateway_id w = (Inl e, w1) \<longrightarrow>
      delete_gateway cp gateway_id w = (Inl e, w1))
   \<and> (call_list_gateway_targets cp gateway_id w = (Inr targets_response, w1)
        \<and> (case targets_response of None \<Rightarrow> [] | Some ts \<Rightarrow> ts) = []
        \<and> call_delete_gateway cp gateway_id w1 = (Inl e, w2) \<longrightarrow>
      delete_gateway cp gateway_id w = (Inl e, w2))
   \<and> (call_list_gateway_targets cp gateway_id w = (Inr targets_response, w1)
        \<and> (case targets_response of None \<Rightarrow> [] | Some ts \<Rightarrow> ts) = []
        \<and> call_delete_gateway cp gateway_id w1 = (Inr (), w2)
        \<and> call_get_gateway cp gateway_id w2 = (Inl e, w3)
        \<and> str_in ''ResourceNotFound'' (str e) \<longrightarrow>
      delete_gateway cp gateway_id w = (Inr [(''status'', Str ''deleted'')], w3))"
proof (intro conjI impI)
  assume "call_list_gateway_targets cp gateway_id w = (Inl e, w1)"
  then show "delete_gateway cp gateway_id w = (Inl e, w1)"
    by (simp add: delete_gateway_def)
next
  assume "call_list_gateway_targets cp gateway_id w = (Inr targets_response, w1)
        \<and> (case targets_response of None \<Rightarrow> [] | Some ts \<Rightarrow> ts) = []
        \<and> call_delete_gateway cp gateway_id w1 = (Inl e, w2)"
  then show "delete_gateway cp gateway_id w = (Inl e, w2)"
    by (simp add: delete_gateway_def)
next
  assume a: "call_list_gateway_targets cp gateway_id w = (Inr targets_response, w1)
        \<and> (case targets_response of None \<Rightarrow> [] | Some ts \<Rightarrow> ts) = []
        \<and> call_delete_gateway cp gateway_id w1 = (Inr (), w2)
        \<and> call_get_gateway cp gateway_id w2 = (Inl e, w3)
        \<and> str_in ''ResourceNotFound'' (str e)"
  then have "wait_for_gateway_deleted cp gateway_id 300 w2 = (Inr (), w3)"
    unfolding wait_for_gateway_deleted_def
    by (subst wait_for_gateway_deleted_loop.simps) simp
  with a show "delete_gateway cp gateway_id w = (Inr [(''status'', Str ''deleted'')], w3)"
    by (simp add: delete_gateway_def)
qed

theorem delete_gateway_not_found_success_only_in_wait_witness:
  "delete_gateway cp_absent ''gw-gone'' w0 =
     (Inl not_found, \<lparr>clock = 0, trace = [(ListGatewayTargets ''gw-gone'', Raised not_found)]\<rparr>)
   \<and> delete_gateway cp_quiet ''gw-gone'' w0 =
     (Inr [(''status'', Str ''deleted'')],
      \<lparr>clock = 0, trace = [(ListGatewayTargets ''gw-gone'', Returned),
                           (DeleteGateway ''gw-gone'', Returned),
                           (GetGateway ''gw-gone'', Raised not_found)]\<rparr>)"
proof -
  let ?w1 = "\<lparr>clock = 0, trace = [(ListGatewayTargets ''gw-gone'', Returned)]\<rparr>"
  let ?w2 = "\<lparr>clock = 0, trace = [(ListGatewayTargets ''gw-gone'', Returned),
                           (DeleteGateway ''gw-gone'', Returned)]\<rparr>"
  let ?w3 = "\<lparr>clock = 0, trace = [(ListGatewayTargets ''gw-gone'', Returned),
                           (DeleteGateway ''gw-gone'', Returned),
                           (GetGateway ''gw-gone'', Raised not_found)]\<rparr>"
  have a: "call_list_gateway_targets cp_absent ''gw-gone'' w0 =
      (Inl not_found, \<lparr>clock = 0, trace = [(ListGatewayTargets ''gw-gone'', Raised not_found)]\<rparr>)"
    by (simp add: call_list_gateway_targets_def invoke_def cp_absent_def cp_quiet_def w0_def)
  have b: "call_list_gateway_targets cp_quiet ''gw-gone'' w0 = (Inr (Some []), ?w1)
      \<and> (case Some [] of None \<Rightarrow> [] | Some ts \<Rightarrow> ts) = ([] :: target list)
      \<and> call_delete_gateway cp_quiet ''gw-gone'' ?w1 = (Inr (), ?w2)
      \<and> call_get_gateway cp_quiet ''gw-gone'' ?w2 = (Inl not_found, ?w3)
      \<and> str_in ''ResourceNotFound'' (str not_found)"
    by (simp add: call_list_gateway_targets_def call_delete_gateway_def call_get_gateway_def
        invoke_def cp_quiet_def w0_def not_found_def)
  from delete_gateway_not_found_success_only_in_wait[of cp_absent "''gw-gone''" w0 not_found
      "\<lparr>clock = 0, trace = [(ListGatewayTargets ''gw-gone'', Raised not_found)]\<rparr>"] a
  have 1: "delete_gateway cp_absent ''gw-gone'' w0 =
     (Inl not_found, \<lparr>clock = 0, trace = [(ListGatewayTargets ''gw-gone'', Raised not_found)]\<rparr>)"
    by blast
  from delete_gateway_not_found_success_only_in_wait[of cp_quiet "''gw-gone''" w0 not_found
      ?w1 "Some []" ?w2 ?w3] b
  have 2: "delete_gateway cp_quiet ''gw-gone'' w0 = (Inr [(''status'', Str ''deleted'')], ?w3)"
    by blast
  from 1 2 show ?thesis by simp
qed

text \<open>
  C2 as stated fails. In \<open>cp_absent\<close> every operation on the gateway answers not found,
  and \<open>delete_gateway\<close> raises at its first call, the target listing; in
  \<open>cp_absent_listed\<close> the listing answers with no targets and \<open>delete_gateway\<close> raises
  the not-found error of the delete call.
\<close>

theorem delete_gateway_absent_counterexample:
  "delete_gateway cp_absent ''gw-gone'' w0 =
     (Inl not_found, \<lparr>clock = 0, trace = [(ListGatewayTargets ''gw-gone'', Raised not_found)]\<rparr>)
   \<and> delete_gateway cp_absent_listed ''gw-gone'' w0 =
     (Inl not_found, \<lparr>clock = 0, trace = [(ListGatewayTargets ''gw-gone'', Returned),
                                         (DeleteGateway ''gw-gone'', Raised not_found)]\<rparr>)
   \<and> fst (call_get_gateway cp_absent ''gw-gone'' w0) = Inl not_found
   \<and> fst (call_get_gateway cp_absent_listed ''gw-gone'' w0) = Inl not_found"
  by (simp add: delete_eval_defs cp_absent_def cp_absent_listed_def)

section \<open>Facts about the gateway sweep\<close>

lemma status_of_records:
  "status_of (deleted_record i n) = status_for False"
  "status_of (error_record i n e) = status_for True"
  "status_of (list_error_record e) = status_for True"
  by (simp_all add: status_of_def status_for_def deleted_record_def error_record_def
      list_error_record_def)

lemma gateway_id_of_records:
  "map_of (deleted_record i n) ''gateway_id'' = Some (Str i)"
  "map_of (error_record i n e) ''gateway_id'' = Some (Str i)"
  "map_of (list_error_record e) ''gateway_id'' = None"
  by (simp_all add: deleted_record_def error_record_def list_error_record_def)

text \<open>With \<open>force\<close> set and an id on every listed gateway, the loop ends normally and
  appends one record per candidate, in order, with the status its deletion earned.\<close>

lemma forced_loop_records:
  assumes "\<forall>g\<in>set gs. gatewayId g \<noteq> None"
  shows "\<exists>recs w'. cleanup_gateways_loop True cp gs acc w = (Inr (), acc @ recs, w')
      \<and> map status_of recs = map status_for (deletion_failures cp (candidate_ids gs) w)"
  using assms
proof (induction gs arbitrary: acc w)
  case Nil
  then show ?case by (simp add: candidate_ids_def)
next
  case (Cons g gs)
  from Cons.prems obtain gid where gid: "gatewayId g = Some gid" by auto
  from Cons.prems have rest: "\<forall>g\<in>set gs. gatewayId g \<noteq> None" by simp
  show ?case
  proof (cases "is_our_gateway g")
    case False
    then have ids: "candidate_ids (g # gs) = candidate_ids gs"
      by (simp add: candidate_ids_def)
    from Cons.IH[OF rest, of acc w] False gid ids show ?thesis by simp
  next
    case True
    then have ids: "candidate_ids (g # gs) = gid # candidate_ids gs"
      using gid by (simp add: candidate_ids_def)
    obtain r w1 where d: "delete_gateway cp gid w = (r, w1)"
      by (cases "delete_gateway cp gid w")
    define rec where "rec = (case r of Inr _ \<Rightarrow> deleted_record gid (gateway_name_of g)
                              | Inl e \<Rightarrow> error_record gid (gateway_name_of g) e)"
    have st: "status_of rec = status_for (isl r)"
      by (cases r) (simp_all add: rec_def status_of_records)
    have step: "cleanup_gateways_loop True cp (g # gs) acc w =
                cleanup_gateways_loop True cp gs (acc @ [rec]) w1"
      using gid True d by (cases r) (simp_all add: rec_def)
    from Cons.IH[OF rest, of "acc @ [rec]" w1] obtain recs w' where
      ih: "cleanup_gateways_loop True cp gs (acc @ [rec]) w1 = (Inr (), (acc @ [rec]) @ recs, w')"
        "map status_of recs = map status_for (deletion_failures cp (candidate_ids gs) w1)"
      by blast
    have "cleanup_gateways_loop True cp (g # gs) acc w = (Inr (), acc @ (rec # recs), w')"
      using step ih(1) by simp
    moreover have "map status_of (rec # recs) =
        map status_for (deletion_failures cp (candidate_ids (g # gs)) w)"
      using ih(2) st d ids by simp
    ultimately show ?thesis by blast
  qed
qed

lemma length_deletion_failures: "length (deletion_failures cp ids w) = length ids"
  by (induction ids arbitrary: w) (auto split: prod.splits)

lemma length_candidate_ids:
  "\<forall>g\<in>set gs. gatewayId g \<noteq> None \<Longrightarrow>
     length (candidate_ids gs) = length (filter is_our_gateway gs)"
  by (induction gs) (auto simp: candidate_ids_def)

lemma count_status:
  assumes "map status_of recs = map status_for fs"
  shows "length (filter (\<lambda>r. status_of r = status_for True) recs) = length (filter (\<lambda>b. b) fs)"
    and "length (filter (\<lambda>r. status_of r = status_for False) recs) =
         length fs - length (filter (\<lambda>b. b) fs)"
proof -
  have t: "length (filter (\<lambda>r. status_of r = status_for True) recs) =
      length (filter (\<lambda>s. s = status_for True) (map status_of recs))"
    by (simp add: filter_map comp_def)
  also have "\<dots> = length (filter (\<lambda>b. b) fs)"
    unfolding assms by (simp add: filter_map comp_def status_for_def)
  finally show "length (filter (\<lambda>r. status_of r = status_for True) recs) =
      length (filter (\<lambda>b. b) fs)" .
  have "length (filter (\<lambda>r. status_of r = status_for False) recs) =
      length (filter (\<lambda>s. s = status_for False) (map status_of recs))"
    by (simp add: filter_map comp_def)
  also have "\<dots> = length (filter (\<lambda>b. \<not> b) fs)"
    unfolding assms by (simp add: filter_map comp_def status_for_def)
  also have "\<dots> = length fs - length (filter (\<lambda>b. b) fs)"
    using sum_length_filter_compl[of "\<lambda>b. b" fs] by simp
  finally show "length (filter (\<lambda>r. status_of r = status_for False) recs) =
      length fs - length (filter (\<lambda>b. b) fs)" .
qed

text \<open>Whatever \<open>force\<close> is and however the loop ends, every record it appends has the
  status \<open>deleted\<close> or \<open>error\<close> and names a listed gateway that passes the name test.\<close>

lemma loop_records:
  "cleanup_gateways_loop force cp gs acc w = (r, out, w') \<Longrightarrow>
     \<exists>recs. out = acc @ recs
        \<and> (\<forall>x\<in>set recs. (status_of x = status_for False \<or> status_of x = status_for True)
              \<and> names_candidate gs x)"
proof (induction gs arbitrary: acc w)
  case Nil
  then show ?case by simp
next
  case (Cons g gs)
  have weaken: "names_candidate gs x \<Longrightarrow> names_candidate (g # gs) x" for x
    by (simp add: names_candidate_def)
  have ih: "cleanup_gateways_loop force cp gs acc' w1 = (r, out, w') \<Longrightarrow>
      \<exists>recs. out = acc' @ recs
        \<and> (\<forall>x\<in>set recs. (status_of x = status_for False \<or> status_of x = status_for True)
              \<and> names_candidate (g # gs) x)" for acc' w1
    using Cons.IH[of acc' w1] weaken by blast
  show ?case
  proof (cases "gatewayId g")
    case None
    with Cons.prems show ?thesis by auto
  next
    case (Some gid)
    show ?thesis
    proof (cases "is_our_gateway g")
      case False
      with Cons.prems Some have "cleanup_gateways_loop force cp gs acc w = (r, out, w')"
        by simp
      then show ?thesis by (rule ih)
    next
      case True
      obtain c w1 where ask: "(if force then (Inr True, w)
          else confirm_action cp
                 (''Delete gateway '' @ gateway_name_of g @ '' ('' @ gid @ '')?'') w) = (c, w1)"
        by (cases "if force then (Inr True, w)
          else confirm_action cp
                 (''Delete gateway '' @ gateway_name_of g @ '' ('' @ gid @ '')?'') w")
      show ?thesis
      proof (cases c)
        case (Inl e)
        with Cons.prems Some True ask have "out = acc" by simp
        then show ?thesis by simp
      next
        case (Inr confirmed)
        show ?thesis
        proof (cases confirmed)
          case False
          with Cons.prems Some True ask Inr
          have "cleanup_gateways_loop force cp gs acc w1 = (r, out, w')" by simp
          then show ?thesis by (rule ih)
        next
          case confirmed: True
          obtain r2 w2 where d: "delete_gateway cp gid w1 = (r2, w2)"
            by (cases "delete_gateway cp gid w1")
          define rec where "rec = (case r2 of Inr _ \<Rightarrow> deleted_record gid (gateway_name_of g)
                              | Inl e \<Rightarrow> error_record gid (gateway_name_of g) e)"
          have st: "status_of rec = status_for False \<or> status_of rec = status_for True"
            by (cases r2) (simp_all add: rec_def status_of_records)
          have nm: "names_candidate (g # gs) rec"
            using True Some
            by (cases r2) (simp_all add: rec_def names_candidate_def gateway_id_of_records)
          have "cleanup_gateways_loop force cp gs (acc @ [rec]) w2 = (r, out, w')"
            using Cons.prems Some True ask Inr confirmed d
            by (cases r2) (simp_all add: rec_def)
          from ih[OF this] obtain recs where
            "out = (acc @ [rec]) @ recs"
            "\<forall>x\<in>set recs. (status_of x = status_for False \<or> status_of x = status_for True)
              \<and> names_candidate (g # gs) x"
            by blast
          with st nm have "out = acc @ (rec # recs)
              \<and> (\<forall>x\<in>set (rec # recs).
                    (status_of x = status_for False \<or> status_of x = status_for True)
                    \<and> names_candidate (g # gs) x)"
            by simp
          then show ?thesis by blast
        qed
      qed
    qed
  qed
qed

section \<open>The gateway sweep: one record per attempted deletion\<close>

text \<open>
  C6. Let the listing return and every listed gateway carry an id. A sweep with \<open>force\<close>
  set over these gateways, of which \<open>N\<close> pass the name test and of whose deletions,
  made in listing order, \<open>K\<close> raise, returns normally (no exception leaves
  \<open>cleanup_gateways\<close>) with exactly \<open>N\<close> records: one per candidate, in order, with
  status \<open>error\<close> where the deletion raised and \<open>deleted\<close> where it returned; so
  \<open>K\<close> of them have status \<open>error\<close> and \<open>N - K\<close> have status \<open>deleted\<close>.
\<close>

theorem cleanup_gateways_report:
  assumes "list_gateways cp w = (Inr gateways, w1)"
    and "\<forall>g\<in>set gateways. gatewayId g \<noteq> None"
  shows "\<exists>results w'. cleanup_gateways cp True w = (Inr results, w')
     \<and> map status_of results =
         map status_for (deletion_failures cp (candidate_ids gateways) w1)
     \<and> length results = length (filter is_our_gateway gateways)
     \<and> length (filter (\<lambda>r. status_of r = Some (Str ''error'')) results) =
         length (filter (\<lambda>failed. failed) (deletion_failures cp (candidate_ids gateways) w1))
     \<and> length (filter (\<lambda>r. status_of r = Some (Str ''deleted'')) results) =
         length (filter is_our_gateway gateways)
         - length (filter (\<lambda>failed. failed) (deletion_failures cp (candidate_ids gateways) w1))"
proof -
  let ?fs = "deletion_failures cp (candidate_ids gateways) w1"
  from forced_loop_records[OF assms(2), of cp "[]" w1] obtain recs w' where
    l: "cleanup_gateways_loop True cp gateways [] w1 = (Inr (), recs, w')"
    and m: "map status_of recs = map status_for ?fs"
    by auto
  have c: "cleanup_gateways cp True w = (Inr recs, w')"
    using assms(1) l by (simp add: cleanup_gateways_def)
  have n: "length ?fs = length (filter is_our_gateway gateways)"
    using length_candidate_ids[OF assms(2)] by (simp add: length_deletion_failures)
  have len: "length recs = length (filter is_our_gateway gateways)"
    using m n by (metis length_map)
  have e: "length (filter (\<lambda>r. status_of r = Some (Str ''error'')) recs) =
      length (filter (\<lambda>failed. failed) ?fs)"
    using count_status(1)[OF m] by (simp add: status_for_def)
  have d: "length (filter (\<lambda>r. status_of r = Some (Str ''deleted'')) recs) =
      length (filter is_our_gateway gateways) - length (filter (\<lambda>failed. failed) ?fs)"
    using count_status(2)[OF m] n by (simp add: status_for_def)
  from c m len e d show ?thesis by blast
qed

theorem cleanup_gateways_report_witness:
  "\<exists>results w'. cleanup_gateways cp_sweep True w0 = (Inr results, w')
     \<and> results = [deleted_record ''gw-a'' ''mcp-demo-gateway'',
                   error_record ''gw-c'' ''Bedrock-Test'' access_denied]
     \<and> length results = 2
     \<and> length (filter (\<lambda>r. status_of r = Some (Str ''error'')) results) = 1
     \<and> length (filter (\<lambda>r. status_of r = Some (Str ''deleted'')) results) = 2 - 1"
proof -
  let ?gs = "[listed_gateway ''gw-a'' ''mcp-demo-gateway'',
              listed_gateway ''gw-b'' ''unrelated-service'',
              listed_gateway ''gw-c'' ''Bedrock-Test'']"
  let ?w1 = "\<lparr>clock = 0, trace = [(ListGateways, Returned)]\<rparr>"
  have a: "list_gateways cp_sweep w0 = (Inr ?gs, ?w1)"
    by (simp add: list_gateways_def call_list_gateways_def invoke_def cp_sweep_def cp_quiet_def
        w0_def)
  have b: "\<forall>g\<in>set ?gs. gatewayId g \<noteq> None"
    by (simp add: listed_gateway_def)
  have n: "length (filter is_our_gateway ?gs) = 2"
    by code_simp
  have ids: "candidate_ids ?gs = [''gw-a'', ''gw-c'']"
    by code_simp
  have k: "deletion_failures cp_sweep [''gw-a'', ''gw-c''] ?w1 = [False, True]"
    by (simp add: delete_eval_defs cp_sweep_def)
  have run: "fst (cleanup_gateways cp_sweep True w0) =
      Inr [deleted_record ''gw-a'' ''mcp-demo-gateway'',
           error_record ''gw-c'' ''Bedrock-Test'' access_denied]"
    by code_simp
  from cleanup_gateways_report[OF a b] obtain results w' where
    r: "cleanup_gateways cp_sweep True w0 = (Inr results, w')"
    and len: "length results = length (filter is_our_gateway ?gs)"
    and e: "length (filter (\<lambda>r. status_of r = Some (Str ''error'')) results) =
        length (filter (\<lambda>failed. failed) (deletion_failures cp_sweep (candidate_ids ?gs) ?w1))"
    and d: "length (filter (\<lambda>r. status_of r = Some (Str ''deleted'')) results) =
        length (filter is_our_gateway ?gs)
        - length (filter (\<lambda>failed. failed) (deletion_failures cp_sweep (candidate_ids ?gs) ?w1))"
    by blast
  have res: "results = [deleted_record ''gw-a'' ''mcp-demo-gateway'',
                        error_record ''gw-c'' ''Bedrock-Test'' access_denied]"
    using r run by simp
  have l1: "length results = 2"
    using len unfolding n .
  have e1: "length (filter (\<lambda>r. status_of r = Some (Str ''error'')) results) = 1"
    using e unfolding ids k by simp
  have d1: "length (filter (\<lambda>r. status_of r = Some (Str ''deleted'')) results) = 2 - 1"
    using d unfolding ids k n by simp
  from r res l1 e1 d1 show ?thesis by blast
qed

section \<open>The gateway sweep: no record without an attempt\<close>

text \<open>
  C8. \<open>cleanup_gateways\<close> always returns a list of records, and each record in it has
  the status \<open>deleted\<close> or the status \<open>error\<close>, so none has the status
  \<open>skipped\<close>; a record that carries a gateway id names a listed gateway that passes the
  name test. A gateway whose name fails the test leaves the list of records and the world
  as they are, and a gateway whose confirmation is declined leaves the list of records as
  it is (the world has the prompt logged).
\<close>

theorem cleanup_gateways_no_skipped_record:
  "(\<exists>results w'. cleanup_gateways cp force w = (Inr results, w')
       \<and> (\<forall>r\<in>set results. status_of r = Some (Str ''deleted'')
                            \<or> status_of r = Some (Str ''error''))
       \<and> (\<forall>r\<in>set results. \<forall>i. map_of r ''gateway_id'' = Some (Str i) \<longrightarrow>
             (\<exists>gateways w1. list_gateways cp w = (Inr gateways, w1)
                \<and> names_candidate gateways r)))
   \<and> (gatewayId g = Some gateway_id \<and> \<not> is_our_gateway g \<longrightarrow>
        cleanup_gateways_loop force cp (g # gs) acc w = cleanup_gateways_loop force cp gs acc w)
   \<and> (gatewayId g = Some gateway_id \<and> is_our_gateway g
        \<and> confirm_action cp
             (''Delete gateway '' @ gateway_name_of g @ '' ('' @ gateway_id @ '')?'') w
           = (Inr False, w2) \<longrightarrow>
        cleanup_gateways_loop False cp (g # gs) acc w =
        cleanup_gateways_loop False cp gs acc w2)"
proof (intro conjI impI)
  obtain l w1 where l: "list_gateways cp w = (l, w1)"
    by (cases "list_gateways cp w")
  show "\<exists>results w'. cleanup_gateways cp force w = (Inr results, w')
       \<and> (\<forall>r\<in>set results. status_of r = Some (Str ''deleted'')
                            \<or> status_of r = Some (Str ''error''))
       \<and> (\<forall>r\<in>set results. \<forall>i. map_of r ''gateway_id'' = Some (Str i) \<longrightarrow>
             (\<exists>gateways w1. list_gateways cp w = (Inr gateways, w1)
                \<and> names_candidate gateways r))"
  proof (cases l)
    case (Inl e)
    with l have "cleanup_gateways cp force w = (Inr [list_error_record e], w1)"
      by (simp add: cleanup_gateways_def)
    then show ?thesis
      by (simp add: status_of_records status_for_def gateway_id_of_records)
  next
    case (Inr gateways)
    obtain r out w' where lp: "cleanup_gateways_loop force cp gateways [] w1 = (r, out, w')"
      by (cases "cleanup_gateways_loop force cp gateways [] w1")
    from loop_records[OF lp] have
      recs: "\<forall>x\<in>set out. (status_of x = status_for False \<or> status_of x = status_for True)
              \<and> names_candidate gateways x"
      by simp
    show ?thesis
    proof (cases r)
      case ok: (Inr u)
      with l Inr lp have "cleanup_gateways cp force w = (Inr out, w')"
        by (simp add: cleanup_gateways_def)
      with recs l Inr show ?thesis
        by (auto simp: status_for_def)
    next
      case (Inl e)
      with l Inr lp have "cleanup_gateways cp force w = (Inr (out @ [list_error_record e]), w')"
        by (simp add: cleanup_gateways_def)
      with recs l Inr show ?thesis
        by (auto simp: status_for_def status_of_records gateway_id_of_records)
    qed
  qed
next
  assume "gatewayId g = Some gateway_id \<and> \<not> is_our_gateway g"
  then show "cleanup_gateways_loop force cp (g # gs) acc w =
      cleanup_gateways_loop force cp gs acc w"
    by simp
next
  assume "gatewayId g = Some gateway_id \<and> is_our_gateway g
        \<and> confirm_action cp
             (''Delete gateway '' @ gateway_name_of g @ '' ('' @ gateway_id @ '')?'') w
           = (Inr False, w2)"
  then show "cleanup_gateways_loop False cp (g # gs) acc w =
      cleanup_gateways_loop False cp gs acc w2"
    by simp
qed

theorem cleanup_gateways_no_skipped_record_witness:
  "fst (cleanup_gateways cp_sweep False w0) = Inr [deleted_record ''gw-a'' ''mcp-demo-gateway'']
   \<and> cleanup_gateways_loop False cp_sweep [listed_gateway ''gw-b'' ''unrelated-service''] [] w0 =
      cleanup_gateways_loop False cp_sweep [] [] w0
   \<and> cleanup_gateways_loop False cp_sweep [listed_gateway ''gw-c'' ''Bedrock-Test''] [] w0 =
      cleanup_gateways_loop False cp_sweep [] []
        \<lparr>clock = 0, trace = [(Input ''Delete gateway Bedrock-Test (gw-c)? (y/N): '', Returned)]\<rparr>"
proof -
  let ?b = "listed_gateway ''gw-b'' ''unrelated-service''"
  let ?c = "listed_gateway ''gw-c'' ''Bedrock-Test''"
  let ?w2 = "\<lparr>clock = 0, trace = [(Input ''Delete gateway Bedrock-Test (gw-c)? (y/N): '', Returned)]\<rparr>"
  have run: "fst (cleanup_gateways cp_sweep False w0) =
      Inr [deleted_record ''gw-a'' ''mcp-demo-gateway'']"
    by code_simp
  have b: "gatewayId ?b = Some ''gw-b'' \<and> \<not> is_our_gateway ?b"
    by code_simp
  have c: "gatewayId ?c = Some ''gw-c'' \<and> is_our_gateway ?c
      \<and> confirm_action cp_sweep
           (''Delete gateway '' @ gateway_name_of ?c @ '' ('' @ ''gw-c'' @ '')?'') w0
         = (Inr False, ?w2)"
    by code_simp
  from cleanup_gateways_no_skipped_record[where cp = cp_sweep and w = w0 and g = ?b
      and gateway_id = "''gw-b''" and gs = "[]" and acc = "[]" and force = False] b
  have 1: "cleanup_gateways_loop False cp_sweep [?b] [] w0 =
      cleanup_gateways_loop False cp_sweep [] [] w0"
    by blast
  from cleanup_gateways_no_skipped_record[where cp = cp_sweep and w = w0 and g = ?c
      and gateway_id = "''gw-c''" and gs = "[]" and acc = "[]" and ?w2.0 = ?w2] c
  have 2: "cleanup_gateways_loop False cp_sweep [?c] [] w0 =
      cleanup_gateways_loop False cp_sweep [] [] ?w2"
    by blast
  from run 1 2 show ?thesis by blast
qed

section \<open>The object-store sweep: a batch delete only for listed objects\<close>

lemma length_objects_to_delete:
  "objects_to_delete objs = Inr keys \<Longrightarrow> length keys = length objs"
  by (induction objs arbitrary: keys) (auto split: option.splits sum.splits)

lemma status_of_bucket_error_record:
  "status_of (bucket_error_record b e) = Some (Str ''error'')"
  by (simp add: status_of_def bucket_error_record_def)

lemma status_of_cleaned_record:
  "status_of (cleaned_record b n) = Some (Str ''cleaned'')"
  by (simp add: status_of_def cleaned_record_def)

text \<open>
  C9 as stated fails: the bucket below is selected by its name and the listing of its
  objects is refused. No object is listed and no delete call is made, yet the sweep appends
  a record for the bucket, with the status \<open>error\<close>.
\<close>

theorem cleanup_s3_error_record_counterexample:
  "cleanup_s3_data cp_denied w0 =
     (Inr [[(''bucket_name'', Str ''mcp-logs''), (''status'', Str ''error''),
            (''error'', Str ''An error occurred (AccessDeniedException): not authorized'')]],
      \<lparr>clock = 0,
       trace = [(ListBuckets, Returned),
                (ListObjectsV2 ''mcp-logs'' ''mcp-data/'' None, Raised access_denied)]\<rparr>)
   \<and> bucket_selected cp_denied ''mcp-logs'' \<lparr>clock = 0, trace = [(ListBuckets, Returned)]\<rparr> =
       (True, \<lparr>clock = 0, trace = [(ListBuckets, Returned)]\<rparr>)
   \<and> listed_objects cp_denied ''mcp-logs'' \<lparr>clock = 0, trace = [(ListBuckets, Returned)]\<rparr> = None"
  by code_simp

text \<open>
  C9, as the code has it. Take a bucket the sweep selects (by its name, or by the probe);
  the objects that exist under \<open>mcp-data/\<close> are those its listing returns. The sweep
  goes on to the next bucket with what the cleaning of this one leaves, and in that
  cleaning: a batch delete call is issued only if the listing returned at least one object,
  and then with exactly the keys of the listed objects; at most one record is appended, with
  the status \<open>cleaned\<close> or \<open>error\<close>, and a \<open>cleaned\<close> record only if the listing
  returned at least one object; if the listing returns no object, the list of records is
  unchanged and the listing is the only call made for the bucket; if it returns objects
  (each with its key), exactly one batch delete call follows it, and when that call returns
  the record \<open>cleaned\<close> with the number of objects is appended. The \<open>error\<close> record
  comes from an error: when the listing raises, when a listed object has no key, or when
  the batch delete raises, no further call is made for the bucket, and the record
  \<open>error\<close> with the text of the error is appended unless that text holds
  \<open>NoSuchBucket\<close>, in which case the list of records is unchanged.
\<close>

theorem cleanup_s3_only_listed_objects:
  assumes "Name bucket = Some bucket_name"
    and "bucket_selected cp bucket_name w = (True, w1)"
    and "clean_bucket cp bucket_name results w1 = (results', w3)"
  shows "cleanup_s3_loop cp (bucket # buckets) results w =
           cleanup_s3_loop cp buckets results' w3
       \<and> (\<forall>keys out. (DeleteObjects bucket_name keys, out) \<in> set (new_calls w1 w3) \<longrightarrow>
            (\<exists>objs. listed_objects cp bucket_name w1 = Some objs \<and> objs \<noteq> []
               \<and> objects_to_delete objs = Inr keys))
       \<and> (results' = results
            \<or> (\<exists>rec. results' = results @ [rec]
                  \<and> (status_of rec = Some (Str ''cleaned'') \<or> status_of rec = Some (Str ''error''))
                  \<and> (status_of rec = Some (Str ''cleaned'') \<longrightarrow>
                       (\<exists>objs. listed_objects cp bucket_name w1 = Some objs \<and> objs \<noteq> []))))
       \<and> (listed_objects cp bucket_name w1 = Some [] \<longrightarrow>
            results' = results
            \<and> new_calls w1 w3 = [(ListObjectsV2 bucket_name ''mcp-data/'' None, Returned)])
       \<and> (\<forall>objs keys. listed_objects cp bucket_name w1 = Some objs \<and> objs \<noteq> []
              \<and> objects_to_delete objs = Inr keys \<longrightarrow>
            (\<exists>out. new_calls w1 w3 =
                      [(ListObjectsV2 bucket_name ''mcp-data/'' None, Returned),
                       (DeleteObjects bucket_name keys, out)]
               \<and> (out = Returned \<longrightarrow>
                    results' = results @ [cleaned_record bucket_name (length objs)])
               \<and> (\<forall>e. out = Raised e \<longrightarrow>
                    results' = (if str_in ''NoSuchBucket'' (str e) then results
                                else results @ [bucket_error_record bucket_name e]))))
       \<and> (\<forall>e. fst (call_list_objects_v2 cp bucket_name ''mcp-data/'' None w1) = Inl e \<longrightarrow>
            new_calls w1 w3 = [(ListObjectsV2 bucket_name ''mcp-data/'' None, Raised e)]
            \<and> results' = (if str_in ''NoSuchBucket'' (str e) then results
                           else results @ [bucket_error_record bucket_name e]))
       \<and> (\<forall>objs e. listed_objects cp bucket_name w1 = Some objs
              \<and> objects_to_delete objs = Inl e \<longrightarrow>
            new_calls w1 w3 = [(ListObjectsV2 bucket_name ''mcp-data/'' None, Returned)]
            \<and> results' = (if str_in ''NoSuchBucket'' (str e) then results
                           else results @ [bucket_error_record bucket_name e]))"
proof -
  let ?list = "ListObjectsV2 bucket_name ''mcp-data/'' None"
  let ?lo = "listed_objects cp bucket_name w1"
  let ?on_error = "\<lambda>e. if str_in ''NoSuchBucket'' (str e) then results
                       else results @ [bucket_error_record bucket_name e]"
  let ?C2 = "\<forall>keys out. (DeleteObjects bucket_name keys, out) \<in> set (new_calls w1 w3) \<longrightarrow>
            (\<exists>objs. ?lo = Some objs \<and> objs \<noteq> [] \<and> objects_to_delete objs = Inr keys)"
  let ?C3 = "results' = results
            \<or> (\<exists>rec. results' = results @ [rec]
                  \<and> (status_of rec = Some (Str ''cleaned'') \<or> status_of rec = Some (Str ''error''))
                  \<and> (status_of rec = Some (Str ''cleaned'') \<longrightarrow>
                       (\<exists>objs. ?lo = Some objs \<and> objs \<noteq> [])))"
  let ?C4 = "?lo = Some [] \<longrightarrow> results' = results \<and> new_calls w1 w3 = [(?list, Returned)]"
  let ?C5 = "\<forall>objs keys. ?lo = Some objs \<and> objs \<noteq> [] \<and> objects_to_delete objs = Inr keys \<longrightarrow>
            (\<exists>out. new_calls w1 w3 = [(?list, Returned), (DeleteObjects bucket_name keys, out)]
               \<and> (out = Returned \<longrightarrow>
                    results' = results @ [cleaned_record bucket_name (length objs)])
               \<and> (\<forall>e. out = Raised e \<longrightarrow> results' = ?on_error e))"
  let ?C6 = "\<forall>e. fst (call_list_objects_v2 cp bucket_name ''mcp-data/'' None w1) = Inl e \<longrightarrow>
            new_calls w1 w3 = [(?list, Raised e)] \<and> results' = ?on_error e"
  let ?C7 = "\<forall>objs e. ?lo = Some objs \<and> objects_to_delete objs = Inl e \<longrightarrow>
            new_calls w1 w3 = [(?list, Returned)] \<and> results' = ?on_error e"
  have step: "cleanup_s3_loop cp (bucket # buckets) results w =
      cleanup_s3_loop cp buckets results' w3"
    using assms by simp
  obtain rl w2 where l: "call_list_objects_v2 cp bucket_name ''mcp-data/'' None w1 = (rl, w2)"
    by (cases "call_list_objects_v2 cp bucket_name ''mcp-data/'' None w1")
  then have t2: "trace w2 = trace w1 @ [(?list, case rl of Inl e \<Rightarrow> Raised e | Inr _ \<Rightarrow> Returned)]"
    by (auto simp: call_list_objects_v2_def invoke_def)
  have be: "bucket_except bucket_name results e = ?on_error e" for e
    by (simp add: bucket_except_def del: str_in.simps)
  have error_rec: "?on_error e = results
      \<or> (\<exists>rec. ?on_error e = results @ [rec]
            \<and> status_of rec = Some (Str ''error'')
            \<and> status_of rec \<noteq> Some (Str ''cleaned''))" for e
    by (simp add: status_of_bucket_error_record del: str_in.simps)
  have rest: "?C2 \<and> ?C3 \<and> ?C4 \<and> ?C5 \<and> ?C6 \<and> ?C7"
  proof (cases rl)
    case (Inl e)
    then have lo: "?lo = None"
      using l by (simp add: listed_objects_def)
    from assms(3) l Inl have r: "results' = ?on_error e" "w3 = w2"
      by (simp_all add: clean_bucket_def be del: str_in.simps)
    have nc: "new_calls w1 w3 = [(?list, Raised e)]"
      using t2 r(2) Inl by (simp add: new_calls_def)
    have f: "fst (call_list_objects_v2 cp bucket_name ''mcp-data/'' None w1) = Inl e"
      using l Inl by simp
    have c2: ?C2 using nc by simp
    have c3: ?C3 using r(1) error_rec[of e] by (auto simp del: str_in.simps)
    have c4: ?C4 using lo by simp
    have c5: ?C5 using lo by simp
    have c6: ?C6 using f nc r(1) by (simp del: str_in.simps)
    have c7: ?C7 using lo by simp
    from c2 c3 c4 c5 c6 c7 show ?thesis by (intro conjI)
  next
    case (Inr objects_response)
    define objs where "objs = (case Contents objects_response of None \<Rightarrow> [] | Some os \<Rightarrow> os)"
    have lo: "?lo = Some objs"
      using l Inr by (simp add: listed_objects_def objs_def)
    have f: "fst (call_list_objects_v2 cp bucket_name ''mcp-data/'' None w1) = Inr objects_response"
      using l Inr by simp
    have c6: ?C6 using f by simp
    show ?thesis
    proof (cases "objects_to_delete objs")
      case bad: (Inl e)
      then have ne: "objs \<noteq> []" by auto
      from assms(3) l Inr bad have r: "results' = ?on_error e" "w3 = w2"
        by (simp_all add: clean_bucket_def objs_def be del: str_in.simps)
      have nc: "new_calls w1 w3 = [(?list, Returned)]"
        using t2 r(2) Inr by (simp add: new_calls_def)
      have c2: ?C2 using nc by simp
      have c3: ?C3 using r(1) error_rec[of e] by (auto simp del: str_in.simps)
      have c4: ?C4 using lo ne by simp
      have c5: ?C5 using lo bad by simp
      have c7: ?C7 using lo bad nc r(1) by (simp del: str_in.simps)
      from c2 c3 c4 c5 c6 c7 show ?thesis by (intro conjI)
    next
      case ok: (Inr keys)
      note len = length_objects_to_delete[OF ok]
      have c7: ?C7 using lo ok by simp
      show ?thesis
      proof (cases "keys = []")
        case True
        with len have e: "objs = []" by simp
        from assms(3) l Inr ok True have r: "results' = results" "w3 = w2"
          by (simp_all add: clean_bucket_def objs_def)
        have nc: "new_calls w1 w3 = [(?list, Returned)]"
          using t2 r(2) Inr by (simp add: new_calls_def)
        have c2: ?C2 using nc by simp
        have c3: ?C3 using r(1) by simp
        have c4: ?C4 using nc r(1) by simp
        have c5: ?C5 using lo e by simp
        from c2 c3 c4 c5 c6 c7 show ?thesis by (intro conjI)
      next
        case False
        with len have ne: "objs \<noteq> []" by auto
        obtain r3 w3' where d: "call_delete_objects cp bucket_name keys w2 = (r3, w3')"
          by (cases "call_delete_objects cp bucket_name keys w2")
        then have t3: "trace w3' = trace w2 @ [(DeleteObjects bucket_name keys,
            case r3 of Inl e \<Rightarrow> Raised e | Inr _ \<Rightarrow> Returned)]"
          by (auto simp: call_delete_objects_def invoke_def)
        from assms(3) l Inr ok False d have w3: "w3 = w3'"
          by (auto simp: clean_bucket_def objs_def split: sum.splits)
        have nc: "new_calls w1 w3 = [(?list, Returned), (DeleteObjects bucket_name keys,
            case r3 of Inl e \<Rightarrow> Raised e | Inr _ \<Rightarrow> Returned)]"
          using t2 t3 w3 Inr by (simp add: new_calls_def)
        have res: "(case r3 of
              Inl e \<Rightarrow> results' = ?on_error e
            | Inr _ \<Rightarrow> results' = results @ [cleaned_record bucket_name (length objs)])"
          using assms(3) l Inr ok False d len
          by (auto simp: clean_bucket_def objs_def be split: sum.splits simp del: str_in.simps)
        have c2: ?C2 using nc lo ne ok by simp
        have c3: ?C3
        proof (cases r3)
          case (Inl e)
          with res error_rec[of e] show ?thesis by (auto simp del: str_in.simps)
        next
          case r3: (Inr u)
          with res lo ne show ?thesis by (simp add: status_of_cleaned_record)
        qed
        have c4: ?C4 using lo ne by simp
        have "\<exists>out. new_calls w1 w3 = [(?list, Returned), (DeleteObjects bucket_name keys, out)]
               \<and> (out = Returned \<longrightarrow>
                    results' = results @ [cleaned_record bucket_name (length objs)])
               \<and> (\<forall>e. out = Raised e \<longrightarrow> results' = ?on_error e)"
          using nc res by (cases r3) (simp_all del: str_in.simps)
        then have c5: ?C5 using lo ok by simp
        from c2 c3 c4 c5 c6 c7 show ?thesis by (intro conjI)
      qed
    qed
  qed
  with step show ?thesis by (intro conjI) blast+
qed

theorem cleanup_s3_only_listed_objects_witness:
  "cleanup_s3_data cp_buckets w0 =
     (Inr [cleaned_record ''mcp-artifacts'' 3],
      \<lparr>clock = 0,
       trace = [(ListBuckets, Returned),
                (ListObjectsV2 ''mcp-artifacts'' ''mcp-data/'' None, Returned),
                (DeleteObjects ''mcp-artifacts'' [''mcp-data/a'', ''mcp-data/b'', ''mcp-data/c''],
                 Returned),
                (ListObjectsV2 ''empty-mcp'' ''mcp-data/'' None, Returned),
                (ListObjectsV2 ''photos'' ''mcp-data/'' (Some 1), Returned)]\<rparr>)
   \<and> listed_objects cp_buckets ''empty-mcp'' w0 = Some []
   \<and> cleanup_s3_loop cp_buckets [\<lparr>Name = Some ''empty-mcp''\<rparr>] [] w0 =
      cleanup_s3_loop cp_buckets [] []
        \<lparr>clock = 0, trace = [(ListObjectsV2 ''empty-mcp'' ''mcp-data/'' None, Returned)]\<rparr>
   \<and> listed_objects cp_buckets ''mcp-artifacts'' w0 =
      Some [\<lparr>Key = Some ''mcp-data/a''\<rparr>, \<lparr>Key = Some ''mcp-data/b''\<rparr>,
            \<lparr>Key = Some ''mcp-data/c''\<rparr>]
   \<and> cleanup_s3_loop cp_buckets [\<lparr>Name = Some ''mcp-artifacts''\<rparr>] [] w0 =
      cleanup_s3_loop cp_buckets [] [cleaned_record ''mcp-artifacts'' 3]
        \<lparr>clock = 0,
         trace = [(ListObjectsV2 ''mcp-artifacts'' ''mcp-data/'' None, Returned),
                  (DeleteObjects ''mcp-artifacts'' [''mcp-data/a'', ''mcp-data/b'', ''mcp-data/c''],
                   Returned)]\<rparr>
   \<and> fst (call_list_objects_v2 cp_denied ''mcp-logs'' ''mcp-data/'' None w0) = Inl access_denied
   \<and> cleanup_s3_loop cp_denied [\<lparr>Name = Some ''mcp-logs''\<rparr>] [] w0 =
      cleanup_s3_loop cp_denied [] [bucket_error_record ''mcp-logs'' access_denied]
        \<lparr>clock = 0,
         trace = [(ListObjectsV2 ''mcp-logs'' ''mcp-data/'' None, Raised access_denied)]\<rparr>
   \<and> clean_bucket cp_denied ''mcp-logs'' [] w0 =
      ([bucket_error_record ''mcp-logs'' access_denied],
       \<lparr>clock = 0,
        trace = [(ListObjectsV2 ''mcp-logs'' ''mcp-data/'' None, Raised access_denied)]\<rparr>)"
proof -
  let ?w2e = "\<lparr>clock = 0, trace = [(ListObjectsV2 ''empty-mcp'' ''mcp-data/'' None, Returned)]\<rparr>"
  let ?keys = "[''mcp-data/a'', ''mcp-data/b'', ''mcp-data/c'']"
  let ?objs = "[\<lparr>Key = Some ''mcp-data/a''\<rparr>, \<lparr>Key = Some ''mcp-data/b''\<rparr>,
                \<lparr>Key = Some ''mcp-data/c''\<rparr>]"
  let ?w3 = "\<lparr>clock = 0,
         trace = [(ListObjectsV2 ''mcp-artifacts'' ''mcp-data/'' None, Returned),
                  (DeleteObjects ''mcp-artifacts'' ?keys, Returned)]\<rparr>"
  let ?w2d = "\<lparr>clock = 0,
         trace = [(ListObjectsV2 ''mcp-logs'' ''mcp-data/'' None, Raised access_denied)]\<rparr>"
  have run: "cleanup_s3_data cp_buckets w0 =
     (Inr [cleaned_record ''mcp-artifacts'' 3],
      \<lparr>clock = 0,
       trace = [(ListBuckets, Returned),
                (ListObjectsV2 ''mcp-artifacts'' ''mcp-data/'' None, Returned),
                (DeleteObjects ''mcp-artifacts'' ?keys, Returned),
                (ListObjectsV2 ''empty-mcp'' ''mcp-data/'' None, Returned),
                (ListObjectsV2 ''photos'' ''mcp-data/'' (Some 1), Returned)]\<rparr>)"
    by code_simp
  have e1: "Name \<lparr>Name = Some ''empty-mcp''\<rparr> = Some ''empty-mcp''" by simp
  have e2: "bucket_selected cp_buckets ''empty-mcp'' w0 = (True, w0)"
    by code_simp
  have e3: "clean_bucket cp_buckets ''empty-mcp'' [] w0 = ([], ?w2e)"
    by code_simp
  have e4: "listed_objects cp_buckets ''empty-mcp'' w0 = Some []"
    by code_simp
  from cleanup_s3_only_listed_objects[OF e1 e2 e3, of "[]"]
  have 1: "cleanup_s3_loop cp_buckets [\<lparr>Name = Some ''empty-mcp''\<rparr>] [] w0 =
      cleanup_s3_loop cp_buckets [] [] ?w2e"
    by blast
  have a1: "Name \<lparr>Name = Some ''mcp-artifacts''\<rparr> = Some ''mcp-artifacts''" by simp
  have a2: "bucket_selected cp_buckets ''mcp-artifacts'' w0 = (True, w0)"
    by code_simp
  have a3: "clean_bucket cp_buckets ''mcp-artifacts'' [] w0 =
      ([cleaned_record ''mcp-artifacts'' 3], ?w3)"
    by code_simp
  have a4: "listed_objects cp_buckets ''mcp-artifacts'' w0 = Some ?objs"
    by code_simp
  from cleanup_s3_only_listed_objects[OF a1 a2 a3, of "[]"]
  have 2: "cleanup_s3_loop cp_buckets [\<lparr>Name = Some ''mcp-artifacts''\<rparr>] [] w0 =
      cleanup_s3_loop cp_buckets [] [cleaned_record ''mcp-artifacts'' 3] ?w3"
    by blast
  have d1: "Name \<lparr>Name = Some ''mcp-logs''\<rparr> = Some ''mcp-logs''" by simp
  have d2: "bucket_selected cp_denied ''mcp-logs'' w0 = (True, w0)"
    by code_simp
  have d3: "clean_bucket cp_denied ''mcp-logs'' [] w0 =
      ([bucket_error_record ''mcp-logs'' access_denied], ?w2d)"
    by code_simp
  have d4: "fst (call_list_objects_v2 cp_denied ''mcp-logs'' ''mcp-data/'' None w0) =
      Inl access_denied"
    by code_simp
  from cleanup_s3_only_listed_objects[OF d1 d2 d3, of "[]"]
  have 3: "cleanup_s3_loop cp_denied [\<lparr>Name = Some ''mcp-logs''\<rparr>] [] w0 =
      cleanup_s3_loop cp_denied [] [bucket_error_record ''mcp-logs'' access_denied] ?w2d"
    by blast
  from run e4 1 a4 2 d4 3 d3 show ?thesis by (intro conjI)
qed

end
